theory Spec2Isabelle
  imports Complex_Main "HOL-Library.Product_Lexorder" "HOL-Library.Sublist"
    "HOL-Library.Multiset" "HOL-Library.Log_Nat"
begin

section \<open>Data model (models.py)\<close>

text \<open>
  The tables of \<^verbatim>\<open>models.py\<close> as records, the database session as a record of row
  lists in insertion order. Columns of different tables that share a name carry a
  prefix in all but one of them (\<open>a_license_key\<close> is \<^verbatim>\<open>Assignment.license_key\<close>,
  \<open>dev_type\<close> is \<^verbatim>\<open>Device.type\<close>, \<open>v_vendor_id\<close> is \<^verbatim>\<open>Vendor.vendor_id\<close>, \<open>license_notes\<close> is \<^verbatim>\<open>License.notes\<close>).
  A \<^verbatim>\<open>Date\<close> is the ordinal of its day (an \<open>int\<close>), so that
  \<^verbatim>\<open>(valid_to - today).days\<close> is the difference of two ordinals and
  \<^verbatim>\<open>today + timedelta(days=n)\<close> is a sum; a \<^verbatim>\<open>DateTime\<close> is an \<open>int\<close> as well.
  The \<^verbatim>\<open>created_at\<close> columns, users, audit logs and software versions play no part in
  the functions below and are left out.
\<close>

datatype DeviceStatus = ACTIVE | MAINTENANCE | OBSOLETE | DECOMMISSIONED

datatype LicenseType = PER_USER | PER_DEVICE | ENTERPRISE

record Vendor =
  v_vendor_id :: string
  vendor_name :: string
  support_email :: "string option"

record Device =
  device_id :: string
  dev_type :: string
  ip_address :: string
  location :: string
  model :: "string option"
  status :: DeviceStatus

record License =
  license_key :: string
  software_name :: string
  vendor_id :: string
  valid_from :: int
  valid_to :: int
  license_type :: LicenseType
  max_usage :: int
  license_notes :: "string option"

record Assignment =
  assignment_id :: string
  a_license_key :: string
  a_device_id :: string
  assigned_by :: string
  assigned_at :: int

record db =
  vendors :: "Vendor list"
  devices :: "Device list"
  licenses :: "License list"
  assignments :: "Assignment list"

text \<open>
  What a service call can raise: the \<^verbatim>\<open>HTTPException\<close> of the services with its status
  code and detail string, the store's refusal of a second row with the same primary
  key or of an integer outside the range of its column, and the attribute error of
  reading a field of \<^verbatim>\<open>None\<close>.
\<close>

datatype error =
    HTTPException (status_code: nat) (detail: string)
  | IntegrityError
  | OverflowError
  | AttributeError

section \<open>Python's \<^verbatim>\<open>str\<close> of an integer, and its floats\<close>

fun str_nat :: "nat \<Rightarrow> string" where
  "str_nat n =
     (if n < 10 then [''0123456789'' ! n]
      else str_nat (n div 10) @ [''0123456789'' ! (n mod 10)])"

declare str_nat.simps [simp del]

definition str_int :: "int \<Rightarrow> string" where
  "str_int i = (if i < 0 then CHR ''-'' # str_nat (nat (- i)) else str_nat (nat i))"

text \<open>
  A Python float is an IEEE 754 binary64 number. A double is modelled by the rational
  number it denotes, and an operation by its exact result rounded to the nearest double,
  a tie going to the even significand: \<open>float_exponent x\<close> is the \<open>e\<close> with
  \<open>2 powi e \<le> \<bar>x\<bar> < 2 powi (e + 1)\<close>, and the doubles between these two powers are the
  multiples of \<open>2 powi (e - 52)\<close>. Overflow and subnormal numbers are left out: every
  float the services compute is zero or lies between \<open>2 powi (- 64)\<close> and \<open>2 powi 80\<close>
  in magnitude, being made from row counts and 64-bit column values.
  \<^item> \<^verbatim>\<open>a / b\<close> on two ints is the quotient rounded once (\<open>float_div\<close>);
  \<^item> \<^verbatim>\<open>x * y\<close> is the rounded product (\<open>float_mul\<close>), an int operand being converted
    first (\<open>float_of_int\<close>);
  \<^item> \<^verbatim>\<open>round(x, 2)\<close> rounds the exact value of \<open>x\<close> to the nearest multiple of 1/100, a
    tie going to the even one, and returns the double nearest to that decimal
    (\<open>py_round2\<close>);
  \<^item> a comparison of a float with an int compares the two numbers.
\<close>

definition round_half_even :: "rat \<Rightarrow> int" where
  "round_half_even x =
     (let f = \<lfloor>x\<rfloor>; d = x - of_int f
      in if d < 1 / 2 then f
         else if 1 / 2 < d then f + 1
         else if even f then f else f + 1)"

definition float_exponent :: "rat \<Rightarrow> int" where
  "float_exponent x =
     (case quotient_of \<bar>x\<bar> of (p, q) \<Rightarrow>
        let d = bitlen p - bitlen q in if 2 powi d \<le> \<bar>x\<bar> then d else d - 1)"

definition to_double :: "rat \<Rightarrow> rat" where
  "to_double x =
     (if x = 0 then 0
      else let ulp = 2 powi (float_exponent x - 52)
           in of_int (round_half_even (x / ulp)) * ulp)"

definition float_of_int :: "int \<Rightarrow> rat" where
  "float_of_int i = to_double (of_int i)"

definition float_div :: "int \<Rightarrow> int \<Rightarrow> rat" where
  "float_div a b = to_double (of_int a / of_int b)"

definition float_mul :: "rat \<Rightarrow> rat \<Rightarrow> rat" where
  "float_mul x y = to_double (x * y)"

definition py_round2 :: "rat \<Rightarrow> rat" where
  "py_round2 x = to_double (of_int (round_half_even (x * 100)) / 100)"

section \<open>AssignmentService (services/assignment\_service.py)\<close>

text \<open>
  \<^verbatim>\<open>query(T).filter(p).first()\<close> is \<open>find p\<close> on the table, \<^verbatim>\<open>.count()\<close> the length of
  the filtered table, \<^verbatim>\<open>.all()\<close> the filtered table.
\<close>

definition count_assignments :: "db \<Rightarrow> string \<Rightarrow> int" where
  "count_assignments s k = int (length (filter (\<lambda>a. a_license_key a = k) (assignments s)))"

text \<open>
  \<^verbatim>\<open>create_assignment\<close>. The two values the call takes from its environment are
  arguments: \<open>uid\<close> is what \<^verbatim>\<open>str(uuid.uuid4())\<close> returns and \<open>now\<close> what the column
  default \<^verbatim>\<open>datetime.utcnow\<close> returns. \<^verbatim>\<open>assignment_id\<close> is the primary key of its
  table, so the commit of a row whose id is already present fails and stores nothing.
  The result is what the call returns or raises, with the session after the call.
\<close>

definition create_assignment ::
  "db \<Rightarrow> string \<Rightarrow> int \<Rightarrow> string \<Rightarrow> string \<Rightarrow> string \<Rightarrow> (error + Assignment) \<times> db" where
  "create_assignment s uid now lk did who =
     (case find (\<lambda>l. license_key l = lk) (licenses s) of
        None \<Rightarrow> (Inl (HTTPException 404 (''License '' @ lk @ '' not found'')), s)
      | Some license \<Rightarrow>
         (case find (\<lambda>d. device_id d = did) (devices s) of
            None \<Rightarrow> (Inl (HTTPException 404 (''Device '' @ did @ '' not found'')), s)
          | Some device \<Rightarrow>
             (case find (\<lambda>a. a_license_key a = lk \<and> a_device_id a = did) (assignments s) of
                Some existing \<Rightarrow>
                  (Inl (HTTPException 400
                     (''License '' @ lk @ '' already assigned to device '' @ did)), s)
              | None \<Rightarrow>
                 (let current_usage = count_assignments s lk in
                  if current_usage \<ge> max_usage license then
                    (Inl (HTTPException 400
                       (''License '' @ lk @ '' has reached maximum usage (''
                          @ str_int (max_usage license) @ ''). Currently assigned to ''
                          @ str_int current_usage @ '' devices.'')), s)
                  else
                    (let assignment = \<lparr>assignment_id = uid, a_license_key = lk,
                           a_device_id = did, assigned_by = who, assigned_at = now\<rparr> in
                     if uid \<in> set (map assignment_id (assignments s)) then
                       (Inl IntegrityError, s)
                     else
                       (Inr assignment,
                        s\<lparr>assignments := assignments s @ [assignment]\<rparr>))))))"

definition get_assignment_by_id :: "db \<Rightarrow> string \<Rightarrow> error + Assignment" where
  "get_assignment_by_id s aid =
     (case find (\<lambda>a. assignment_id a = aid) (assignments s) of
        None \<Rightarrow> Inl (HTTPException 404 (''Assignment '' @ aid @ '' not found''))
      | Some assignment \<Rightarrow> Inr assignment)"

definition get_assignments_by_device :: "db \<Rightarrow> string \<Rightarrow> Assignment list" where
  "get_assignments_by_device s did = filter (\<lambda>a. a_device_id a = did) (assignments s)"

definition get_assignments_by_license :: "db \<Rightarrow> string \<Rightarrow> Assignment list" where
  "get_assignments_by_license s lk = filter (\<lambda>a. a_license_key a = lk) (assignments s)"

text \<open>
  \<^verbatim>\<open>delete_assignment\<close> returns a dict of three strings. \<^verbatim>\<open>db.delete(assignment)\<close>
  deletes the row of the table whose primary key is that of the object.
\<close>

record delete_result =
  dr_message :: string
  dr_license_key :: string
  dr_device_id :: string

definition delete_assignment :: "db \<Rightarrow> string \<Rightarrow> (error + delete_result) \<times> db" where
  "delete_assignment s aid =
     (case get_assignment_by_id s aid of
        Inl e \<Rightarrow> (Inl e, s)
      | Inr assignment \<Rightarrow>
         (Inr \<lparr>dr_message = ''Assignment '' @ aid @ '' deleted successfully'',
               dr_license_key = a_license_key assignment,
               dr_device_id = a_device_id assignment\<rparr>,
          s\<lparr>assignments :=
               filter (\<lambda>a. assignment_id a \<noteq> assignment_id assignment) (assignments s)\<rparr>))"

text \<open>\<^verbatim>\<open>get_license_utilization\<close> returns a dict with these seven keys.\<close>

record utilization =
  u_license_key :: string
  u_software_name :: string
  u_max_usage :: int
  u_current_usage :: int
  u_available :: int
  u_utilization_percent :: rat
  u_status :: string

definition get_license_utilization :: "db \<Rightarrow> string \<Rightarrow> error + utilization" where
  "get_license_utilization s lk =
     (case find (\<lambda>l. license_key l = lk) (licenses s) of
        None \<Rightarrow> Inl (HTTPException 404 (''License '' @ lk @ '' not found''))
      | Some license \<Rightarrow>
         (let current_usage = count_assignments s lk;
              max_usage' = max_usage license;
              available = max_usage' - current_usage;
              utilization_percent =
                (if max_usage' > 0
                 then py_round2 (float_mul (float_div current_usage max_usage') 100) else 0);
              status_label =
                (if utilization_percent \<ge> 90 then ''CRITICAL''
                 else if utilization_percent \<ge> 70 then ''WARNING''
                 else ''OK'')
          in Inr \<lparr>u_license_key = lk, u_software_name = software_name license,
                  u_max_usage = max_usage', u_current_usage = current_usage,
                  u_available = available, u_utilization_percent = utilization_percent,
                  u_status = status_label\<rparr>))"

section \<open>AlertService (services/alert\_service.py)\<close>

text \<open>
  \<^verbatim>\<open>date.today()\<close> is the argument \<open>today\<close> of every function that reads it. The
  alert dicts are records; \<^verbatim>\<open>valid_to.isoformat()\<close> is kept as the day ordinal, and the
  timestamps \<^verbatim>\<open>generated_at\<close> and \<^verbatim>\<open>report_date\<close> of the reports are left out.
\<close>

definition get_expiry_severity :: "int \<Rightarrow> string" where
  "get_expiry_severity days_until_expiry =
     (if days_until_expiry \<le> 7 then ''CRITICAL''
      else if days_until_expiry \<le> 15 then ''HIGH''
      else if days_until_expiry \<le> 30 then ''MEDIUM''
      else ''LOW'')"

record expiry_alert =
  ea_license_key :: string
  ea_software_name :: string
  ea_vendor_id :: string
  ea_valid_to :: int
  ea_days_until_expiry :: int
  ea_assigned_devices :: int
  ea_severity :: string
  ea_message :: string

definition expiry_alert_of :: "db \<Rightarrow> int \<Rightarrow> License \<Rightarrow> expiry_alert" where
  "expiry_alert_of s today license =
     (let days_until_expiry = valid_to license - today;
          assignment_count = count_assignments s (license_key license)
      in \<lparr>ea_license_key = license_key license,
          ea_software_name = software_name license,
          ea_vendor_id = vendor_id license,
          ea_valid_to = valid_to license,
          ea_days_until_expiry = days_until_expiry,
          ea_assigned_devices = assignment_count,
          ea_severity = get_expiry_severity days_until_expiry,
          ea_message = software_name license @ '' expires in '' @ str_int days_until_expiry
             @ '' day'' @ (if days_until_expiry \<noteq> 1 then ''s'' else [])\<rparr>)"

text \<open>
  \<^verbatim>\<open>sorted(alerts, key=...)\<close> is a stable sort, as \<open>sort_key\<close> is.
\<close>

definition get_expiring_licenses :: "db \<Rightarrow> int \<Rightarrow> int \<Rightarrow> expiry_alert list" where
  "get_expiring_licenses s today days =
     (let threshold_date = today + days;
          licenses' = filter (\<lambda>l. valid_to l \<le> threshold_date \<and> valid_to l \<ge> today)
                        (licenses s);
          alerts = map (expiry_alert_of s today) licenses'
      in sort_key ea_days_until_expiry alerts)"

text \<open>
  Strings are byte lists: the separator the source joins the parts with is written as
  the seven bytes of its UTF-8 encoding, between two spaces.
\<close>

definition get_device_risk_message :: "int \<Rightarrow> int \<Rightarrow> string" where
  "get_device_risk_message expired_count expiring_soon =
     (let parts = (if expired_count > 0
                   then [str_int expired_count @ '' expired license''
                           @ (if expired_count \<noteq> 1 then ''s'' else [])]
                   else [])
                  @ (if expiring_soon > 0
                     then [str_int expiring_soon @ '' expiring soon''] else []);
          sep = '' '' @ [char_of (0xC3::nat), char_of (0xA2::nat), char_of (0xE2::nat),
                        char_of (0x82::nat), char_of (0xAC::nat), char_of (0xC2::nat),
                        char_of (0xA2::nat)] @ '' ''
      in case parts of [] \<Rightarrow> [] | p # ps \<Rightarrow> foldl (\<lambda>acc q. acc @ sep @ q) p ps)"

record expiring_detail =
  ed_name :: string
  ed_days_left :: int

record device_risk =
  dk_device_id :: string
  dk_device_type :: string
  dk_location :: string
  dk_ip_address :: string
  dk_expired_licenses :: int
  dk_expiring_soon :: int
  dk_expired_license_names :: "string list"
  dk_expiring_license_details :: "expiring_detail list"
  dk_severity :: string
  dk_message :: string

text \<open>
  The inner loop of \<^verbatim>\<open>get_devices_at_risk\<close> over the assignments of one device, with its
  four accumulators. \<^verbatim>\<open>assignment.license\<close> is the license row the foreign key names;
  when there is none it is \<^verbatim>\<open>None\<close> and reading \<^verbatim>\<open>valid_to\<close> raises.
\<close>

fun risk_loop ::
  "License list \<Rightarrow> int \<Rightarrow> int \<Rightarrow> Assignment list
     \<Rightarrow> int \<times> int \<times> string list \<times> expiring_detail list
     \<Rightarrow> error + (int \<times> int \<times> string list \<times> expiring_detail list)" where
  "risk_loop ls today threshold_date [] acc = Inr acc"
| "risk_loop ls today threshold_date (assignment # rest)
       (expired_count, expiring_soon_count, expired_licenses, expiring_licenses) =
     (case find (\<lambda>l. license_key l = a_license_key assignment) ls of
        None \<Rightarrow> Inl AttributeError
      | Some license \<Rightarrow>
          if valid_to license < today then
            risk_loop ls today threshold_date rest
              (expired_count + 1, expiring_soon_count,
               expired_licenses @ [software_name license], expiring_licenses)
          else if valid_to license \<le> threshold_date then
            risk_loop ls today threshold_date rest
              (expired_count, expiring_soon_count + 1, expired_licenses,
               expiring_licenses @ [\<lparr>ed_name = software_name license,
                                      ed_days_left = valid_to license - today\<rparr>])
          else
            risk_loop ls today threshold_date rest
              (expired_count, expiring_soon_count, expired_licenses, expiring_licenses))"

text \<open>The outer loop over the devices the query returned, appending to \<^verbatim>\<open>at_risk\<close>.\<close>

fun at_risk_loop ::
  "db \<Rightarrow> int \<Rightarrow> int \<Rightarrow> Device list \<Rightarrow> device_risk list \<Rightarrow> error + device_risk list" where
  "at_risk_loop s today threshold_date [] at_risk = Inr at_risk"
| "at_risk_loop s today threshold_date (device # rest) at_risk =
     (let assignments' = filter (\<lambda>a. a_device_id a = device_id device) (assignments s)
      in case risk_loop (licenses s) today threshold_date assignments' (0, 0, [], []) of
           Inl e \<Rightarrow> Inl e
         | Inr (expired_count, expiring_soon_count, expired_licenses, expiring_licenses) \<Rightarrow>
             if expired_count > 0 \<or> expiring_soon_count > 0 then
               at_risk_loop s today threshold_date rest
                 (at_risk @
                  [\<lparr>dk_device_id = device_id device,
                    dk_device_type = dev_type device,
                    dk_location = location device,
                    dk_ip_address = ip_address device,
                    dk_expired_licenses = expired_count,
                    dk_expiring_soon = expiring_soon_count,
                    dk_expired_license_names = expired_licenses,
                    dk_expiring_license_details = expiring_licenses,
                    dk_severity = (if expired_count > 0 then ''CRITICAL'' else ''WARNING''),
                    dk_message = get_device_risk_message expired_count expiring_soon_count\<rparr>])
             else at_risk_loop s today threshold_date rest at_risk)"

definition get_devices_at_risk :: "db \<Rightarrow> int \<Rightarrow> int \<Rightarrow> error + device_risk list" where
  "get_devices_at_risk s today days_threshold =
     (let threshold_date = today + days_threshold;
          devices' = filter (\<lambda>d. status d = ACTIVE) (devices s)
      in case at_risk_loop s today threshold_date devices' [] of
           Inl e \<Rightarrow> Inl e
         | Inr at_risk \<Rightarrow>
             Inr (sort_key (\<lambda>x. (dk_severity x = ''WARNING'', - dk_expired_licenses x))
                    at_risk))"

text \<open>
  \<^verbatim>\<open>get_license_compliance_report\<close>: one pass over all licenses with five counters.
  \<^verbatim>\<open>0.9\<close> is the double nearest to 9/10.
\<close>

record alert_compliance =
  ac_total_licenses :: int
  ac_valid_licenses :: int
  ac_expiring_within_30_days :: int
  ac_expiring_within_60_days :: int
  ac_expired_licenses :: int
  ac_overused_licenses :: int
  ac_compliance_rate :: rat

fun alert_compliance_loop ::
  "db \<Rightarrow> int \<Rightarrow> License list \<Rightarrow> int \<times> int \<times> int \<times> int \<times> int
     \<Rightarrow> int \<times> int \<times> int \<times> int \<times> int" where
  "alert_compliance_loop s today [] acc = acc"
| "alert_compliance_loop s today (license # rest)
       (valid_count, expiring_30_days, expiring_60_days, expired_count, overused_count) =
     (let days_until_expiry = valid_to license - today;
          usage = count_assignments s (license_key license);
          overused_count' =
            (if (of_int usage :: rat)
                  \<ge> float_mul (float_of_int (max_usage license)) (to_double (9 / 10))
             then overused_count + 1 else overused_count)
      in if days_until_expiry < 0 then
           alert_compliance_loop s today rest
             (valid_count, expiring_30_days, expiring_60_days, expired_count + 1,
              overused_count')
         else if days_until_expiry \<le> 30 then
           alert_compliance_loop s today rest
             (valid_count, expiring_30_days + 1, expiring_60_days, expired_count,
              overused_count')
         else if days_until_expiry \<le> 60 then
           alert_compliance_loop s today rest
             (valid_count, expiring_30_days, expiring_60_days + 1, expired_count,
              overused_count')
         else
           alert_compliance_loop s today rest
             (valid_count + 1, expiring_30_days, expiring_60_days, expired_count,
              overused_count'))"

definition get_license_compliance_report :: "db \<Rightarrow> int \<Rightarrow> alert_compliance" where
  "get_license_compliance_report s today =
     (let all_licenses = licenses s
      in case alert_compliance_loop s today all_licenses (0, 0, 0, 0, 0) of
           (valid_count, expiring_30_days, expiring_60_days, expired_count, overused_count) \<Rightarrow>
             \<lparr>ac_total_licenses = int (length all_licenses),
              ac_valid_licenses = valid_count,
              ac_expiring_within_30_days = expiring_30_days,
              ac_expiring_within_60_days = expiring_60_days,
              ac_expired_licenses = expired_count,
              ac_overused_licenses = overused_count,
              ac_compliance_rate =
                (if all_licenses \<noteq> []
                 then py_round2 (float_mul (float_div valid_count (int (length all_licenses))) 100)
                 else 0)\<rparr>)"

section \<open>ReportService (services/report\_service.py)\<close>

definition LicenseType_value :: "LicenseType \<Rightarrow> string" where
  "LicenseType_value t =
     (case t of PER_USER \<Rightarrow> ''Per User'' | PER_DEVICE \<Rightarrow> ''Per Device''
      | ENTERPRISE \<Rightarrow> ''Enterprise'')"

record license_data =
  ld_license_key :: string
  ld_software_name :: string
  ld_vendor_id :: string
  ld_valid_from :: int
  ld_valid_to :: int
  ld_days_until_expiry :: int
  ld_max_usage :: int
  ld_current_usage :: int
  ld_usage_percentage :: rat
  ld_license_type :: string

record report_summary =
  rs_valid :: int
  rs_expiring_30_days :: int
  rs_expiring_60_days :: int
  rs_expired :: int
  rs_overused :: int
  rs_underutilized :: int

record compliance_report =
  cr_total_licenses :: int
  cr_summary :: report_summary
  cr_valid_licenses :: "license_data list"
  cr_expiring_30_days :: "license_data list"
  cr_expiring_60_days :: "license_data list"
  cr_expired_licenses :: "license_data list"
  cr_overused_licenses :: "license_data list"
  cr_underutilized_licenses :: "license_data list"
  cr_compliance_rate :: rat

definition usage_percentage_of :: "db \<Rightarrow> License \<Rightarrow> rat" where
  "usage_percentage_of s license =
     (if max_usage license > 0
      then float_mul (float_div (count_assignments s (license_key license)) (max_usage license))
             100
      else 0)"

definition license_data_of :: "db \<Rightarrow> int \<Rightarrow> License \<Rightarrow> license_data" where
  "license_data_of s today license =
     \<lparr>ld_license_key = license_key license,
      ld_software_name = software_name license,
      ld_vendor_id = vendor_id license,
      ld_valid_from = valid_from license,
      ld_valid_to = valid_to license,
      ld_days_until_expiry = valid_to license - today,
      ld_max_usage = max_usage license,
      ld_current_usage = count_assignments s (license_key license),
      ld_usage_percentage = py_round2 (usage_percentage_of s license),
      ld_license_type = LicenseType_value (license_type license)\<rparr>"

text \<open>
  The loop of \<^verbatim>\<open>generate_license_compliance_report\<close> with its six lists, in the order
  valid, expiring in 30 days, expiring in 60 days, expired, overused, underutilized.
\<close>

fun report_compliance_loop ::
  "db \<Rightarrow> int \<Rightarrow> License list
     \<Rightarrow> license_data list \<times> license_data list \<times> license_data list \<times> license_data list
        \<times> license_data list \<times> license_data list
     \<Rightarrow> license_data list \<times> license_data list \<times> license_data list \<times> license_data list
        \<times> license_data list \<times> license_data list" where
  "report_compliance_loop s today [] acc = acc"
| "report_compliance_loop s today (license # rest)
       (valid_licenses, expiring_30_days, expiring_60_days, expired_licenses,
        overused_licenses, underutilized_licenses) =
     (let days_until_expiry = valid_to license - today;
          usage_percentage = usage_percentage_of s license;
          license_data = license_data_of s today license;
          overused_licenses' =
            (if usage_percentage \<ge> 90 then overused_licenses @ [license_data]
             else overused_licenses);
          underutilized_licenses' =
            (if usage_percentage \<ge> 90 then underutilized_licenses
             else if usage_percentage < 30 then underutilized_licenses @ [license_data]
             else underutilized_licenses)
      in if days_until_expiry < 0 then
           report_compliance_loop s today rest
             (valid_licenses, expiring_30_days, expiring_60_days,
              expired_licenses @ [license_data], overused_licenses', underutilized_licenses')
         else if days_until_expiry \<le> 30 then
           report_compliance_loop s today rest
             (valid_licenses, expiring_30_days @ [license_data], expiring_60_days,
              expired_licenses, overused_licenses', underutilized_licenses')
         else if days_until_expiry \<le> 60 then
           report_compliance_loop s today rest
             (valid_licenses, expiring_30_days, expiring_60_days @ [license_data],
              expired_licenses, overused_licenses', underutilized_licenses')
         else
           report_compliance_loop s today rest
             (valid_licenses @ [license_data], expiring_30_days, expiring_60_days,
              expired_licenses, overused_licenses', underutilized_licenses'))"

definition generate_license_compliance_report :: "db \<Rightarrow> int \<Rightarrow> compliance_report" where
  "generate_license_compliance_report s today =
     (let all_licenses = licenses s
      in case report_compliance_loop s today all_licenses ([], [], [], [], [], []) of
           (valid_licenses, expiring_30_days, expiring_60_days, expired_licenses,
            overused_licenses, underutilized_licenses) \<Rightarrow>
             \<lparr>cr_total_licenses = int (length all_licenses),
              cr_summary =
                \<lparr>rs_valid = int (length valid_licenses),
                 rs_expiring_30_days = int (length expiring_30_days),
                 rs_expiring_60_days = int (length expiring_60_days),
                 rs_expired = int (length expired_licenses),
                 rs_overused = int (length overused_licenses),
                 rs_underutilized = int (length underutilized_licenses)\<rparr>,
              cr_valid_licenses = valid_licenses,
              cr_expiring_30_days = expiring_30_days,
              cr_expiring_60_days = expiring_60_days,
              cr_expired_licenses = expired_licenses,
              cr_overused_licenses = overused_licenses,
              cr_underutilized_licenses = underutilized_licenses,
              cr_compliance_rate =
                (if all_licenses \<noteq> []
                 then py_round2 (float_mul (float_div (int (length valid_licenses))
                                              (int (length all_licenses))) 100)
                 else 0)\<rparr>)"

section \<open>LicenseService (services/license\_service.py)\<close>



section \<open>Sequences of Allocation Engine operations\<close>

text \<open>
  A request to the engine is one of its two commands with its arguments (and, for an
  assignment, the id and the time the call draws). \<open>exec_op\<close> is the session after the
  call, whether it returned or raised; \<open>run\<close> executes requests one after the other.
\<close>

datatype op =
    Assign string int string string string
  | Release string

fun exec_op :: "db \<Rightarrow> op \<Rightarrow> db" where
  "exec_op s (Assign uid now lk did who) = snd (create_assignment s uid now lk did who)"
| "exec_op s (Release aid) = snd (delete_assignment s aid)"

definition run :: "db \<Rightarrow> op list \<Rightarrow> db" where
  "run s ops = foldl exec_op s ops"

text \<open>The number of assignments that bind a license to a device.\<close>

definition count_pair :: "db \<Rightarrow> string \<Rightarrow> string \<Rightarrow> nat" where
  "count_pair s lk did =
     length (filter (\<lambda>a. a_license_key a = lk \<and> a_device_id a = did) (assignments s))"

section \<open>The expiry buckets of the compliance report, as the specification words them\<close>

text \<open>
  The specification partitions the licenses by \<open>days_until_expiry\<close>: expired when it is
  negative, expiring within 30 days when at most 30, expiring within 60 days when at
  most 60, valid otherwise. \<open>spec_bucket\<close> is that partition, written from the
  specification; the reports are compared with it below.
\<close>

datatype bucket = Valid | Expiring30 | Expiring60 | Expired

definition spec_bucket :: "int \<Rightarrow> bucket" where
  "spec_bucket days_until_expiry =
     (if days_until_expiry < 0 then Expired
      else if days_until_expiry \<le> 30 then Expiring30
      else if days_until_expiry \<le> 60 then Expiring60
      else Valid)"

definition in_bucket :: "int \<Rightarrow> bucket \<Rightarrow> License \<Rightarrow> bool" where
  "in_bucket today b license = (spec_bucket (valid_to license - today) = b)"

section \<open>Example data\<close>

text \<open>Small stores on which the theorems below are instantiated; today is day 1000.\<close>

definition example_device :: "string \<Rightarrow> DeviceStatus \<Rightarrow> Device" where
  "example_device i st =
     \<lparr>device_id = i, dev_type = ''Router'', ip_address = ''10.0.0.1'', location = ''Lab'',
      model = None, status = st\<rparr>"

definition example_license :: "string \<Rightarrow> int \<Rightarrow> int \<Rightarrow> License" where
  "example_license k vt m =
     \<lparr>license_key = k, software_name = ''Suite'', vendor_id = ''V-1'', valid_from = 0,
      valid_to = vt, license_type = PER_DEVICE, max_usage = m, license_notes = None\<rparr>"

definition example_assignment :: "string \<Rightarrow> string \<Rightarrow> string \<Rightarrow> Assignment" where
  "example_assignment i k d =
     \<lparr>assignment_id = i, a_license_key = k, a_device_id = d, assigned_by = ''admin'',
      assigned_at = 0\<rparr>"

definition example_store :: "License list \<Rightarrow> Assignment list \<Rightarrow> db" where
  "example_store ls as =
     \<lparr>vendors = [\<lparr>v_vendor_id = ''V-1'', vendor_name = ''Acme'', support_email = None\<rparr>],
      devices = [example_device ''DEV-A'' ACTIVE, example_device ''DEV-B'' ACTIVE,
                 example_device ''DEV-C'' ACTIVE, example_device ''DEV-M'' MAINTENANCE],
      licenses = ls, assignments = as\<rparr>"

text \<open>One license of capacity 2, with no and with two assignments.\<close>

definition store_empty :: db where
  "store_empty = example_store [example_license ''LIC-1'' 1005 2] []"

definition store_full :: db where
  "store_full = example_store [example_license ''LIC-1'' 1005 2]
     [example_assignment ''u1'' ''LIC-1'' ''DEV-A'',
      example_assignment ''u2'' ''LIC-1'' ''DEV-B'']"

definition three_assigns :: "op list" where
  "three_assigns =
     [Assign ''u1'' 0 ''LIC-1'' ''DEV-A'' ''admin'', Assign ''u2'' 0 ''LIC-1'' ''DEV-B'' ''admin'',
      Assign ''u3'' 0 ''LIC-1'' ''DEV-C'' ''admin'']"

definition assign_twice :: "op list" where
  "assign_twice =
     [Assign ''u1'' 0 ''LIC-1'' ''DEV-A'' ''admin'', Assign ''u2'' 0 ''LIC-1'' ''DEV-A'' ''admin'']"

text \<open>One license of capacity 3 with one assignment.\<close>

definition store_third :: db where
  "store_third = example_store [example_license ''LIC-3'' 1100 3]
     [example_assignment ''u1'' ''LIC-3'' ''DEV-A'']"

text \<open>Licenses that expire in 20, 5 and 29 days, one that expired yesterday, one that
  expires in 31 days.\<close>

definition store_expiry :: db where
  "store_expiry = example_store
     [example_license ''L20'' 1020 5, example_license ''L5'' 1005 5,
      example_license ''L29'' 1029 5, example_license ''LX'' 999 5,
      example_license ''L31'' 1031 5] []"

text \<open>Three licenses: one valid, one expiring within 30 days, one expired.\<close>

definition store_buckets :: db where
  "store_buckets = example_store
     [example_license ''LV'' 1100 5, example_license ''L10'' 1010 5,
      example_license ''LX'' 990 5] []"

text \<open>A single license whose \<open>max_usage\<close> is 0, unassigned.\<close>

definition license_zero :: License where
  "license_zero = example_license ''LIC-0'' 1100 0"

definition store_zero :: db where
  "store_zero = example_store [license_zero] []"

text \<open>An expired license assigned to an active device and to one in maintenance.\<close>

definition store_risk :: db where
  "store_risk = example_store [example_license ''LX'' 999 5]
     [example_assignment ''u1'' ''LX'' ''DEV-A'', example_assignment ''u2'' ''LX'' ''DEV-M'']"


text \<open>One license of capacity 160 assigned to 23 devices.\<close>

definition store_23_of_160 :: db where
  "store_23_of_160 =
     \<lparr>vendors = [\<lparr>v_vendor_id = ''V-1'', vendor_name = ''Acme'', support_email = None\<rparr>],
      devices = map (\<lambda>i. example_device (''D'' @ str_nat i) ACTIVE) [0..<23],
      licenses = [example_license ''LIC-T'' 1100 160],
      assignments =
        map (\<lambda>i. example_assignment (''u'' @ str_nat i) ''LIC-T'' (''D'' @ str_nat i))
          [0..<23]\<rparr>"

text \<open>160 licenses, 23 of them valid and 137 expired.\<close>

definition store_23_valid :: db where
  "store_23_valid = example_store
     (map (\<lambda>i. example_license (''L'' @ str_nat i) (if i < 23 then 1100 else 990) 5)
        [0..<160]) []"

section \<open>Auxiliary facts\<close>

lemma find_is_Some: "(\<exists>x\<in>set xs. P x) \<Longrightarrow> \<exists>y. find P xs = Some y"
  by (cases "find P xs") (auto simp: find_None_iff)

lemma length_filter_filter_le:
  "length (filter P (filter Q xs)) \<le> length (filter P xs)"
  by (induction xs) auto

lemmas example_defs =
  example_device_def example_license_def example_assignment_def example_store_def

lemmas store_defs = store_empty_def store_full_def three_assigns_def assign_twice_def

lemma filter_neq_remove1:
  "distinct (map f xs) \<Longrightarrow> a \<in> set xs \<Longrightarrow> filter (\<lambda>x. f x \<noteq> f a) xs = remove1 a xs"
proof (induction xs)
  case Nil
  then show ?case by simp
next
  case (Cons x xs)
  show ?case
  proof (cases "x = a")
    case True
    with Cons.prems(1) have "f a \<notin> f ` set xs" by simp
    then have "\<forall>y\<in>set xs. f y \<noteq> f a" by (metis imageI)
    then have "filter (\<lambda>x. f x \<noteq> f a) xs = xs" by (simp add: filter_id_conv)
    with True show ?thesis by simp
  next
    case False
    with Cons.prems have "a \<in> set xs" "f x \<noteq> f a" by auto
    with Cons False show ?thesis by simp
  qed
qed

lemma find_distinct_key:
  "distinct (map f xs) \<Longrightarrow> a \<in> set xs \<Longrightarrow> find (\<lambda>x. f x = f a) xs = Some a"
  by (induction xs) auto

section \<open>The Allocation Engine: what one call does to the store\<close>

lemma create_assignment_tables:
  "licenses (snd (create_assignment s uid now lk did who)) = licenses s"
  "devices (snd (create_assignment s uid now lk did who)) = devices s"
  "vendors (snd (create_assignment s uid now lk did who)) = vendors s"
  by (simp_all add: create_assignment_def Let_def split: option.splits)

lemma delete_assignment_tables:
  "licenses (snd (delete_assignment s aid)) = licenses s"
  "devices (snd (delete_assignment s aid)) = devices s"
  "vendors (snd (delete_assignment s aid)) = vendors s"
  by (simp_all add: delete_assignment_def get_assignment_by_id_def
        split: option.splits sum.splits)

lemma delete_assignment_assignments:
  "assignments (snd (delete_assignment s aid)) =
     filter (\<lambda>a. assignment_id a \<noteq> aid) (assignments s)"
proof (cases "find (\<lambda>a. assignment_id a = aid) (assignments s)")
  case None
  then have "\<forall>a\<in>set (assignments s). assignment_id a \<noteq> aid"
    by (simp add: find_None_iff)
  then have "filter (\<lambda>a. assignment_id a \<noteq> aid) (assignments s) = assignments s"
    by (simp add: filter_id_conv)
  with None show ?thesis
    by (simp add: delete_assignment_def get_assignment_by_id_def)
next
  case (Some a)
  then have "assignment_id a = aid" by (auto simp: find_Some_iff)
  with Some show ?thesis
    by (simp add: delete_assignment_def get_assignment_by_id_def)
qed

lemma exec_op_licenses: "licenses (exec_op s op) = licenses s"
  by (cases op) (simp_all add: create_assignment_tables delete_assignment_tables)

lemma create_assignment_capacity:
  assumes "find (\<lambda>l. license_key l = lk) (licenses s) = Some L"
      and "count_assignments s lk \<le> max_usage L"
  shows "count_assignments (snd (create_assignment s uid now lk' did who)) lk \<le> max_usage L"
  using assms
  by (auto simp: create_assignment_def count_assignments_def Let_def split: option.splits)

lemma delete_assignment_capacity:
  assumes "count_assignments s lk \<le> M"
  shows "count_assignments (snd (delete_assignment s aid)) lk \<le> M"
proof -
  have "length (filter (\<lambda>a. a_license_key a = lk)
          (filter (\<lambda>a. assignment_id a \<noteq> aid) (assignments s)))
        \<le> length (filter (\<lambda>a. a_license_key a = lk) (assignments s))"
    by (rule length_filter_filter_le)
  with assms show ?thesis
    by (simp add: count_assignments_def delete_assignment_assignments)
qed

lemma exec_op_capacity:
  assumes "find (\<lambda>l. license_key l = lk) (licenses s) = Some L"
      and "count_assignments s lk \<le> max_usage L"
  shows "count_assignments (exec_op s op) lk \<le> max_usage L"
  using assms
  by (cases op) (simp_all add: create_assignment_capacity delete_assignment_capacity)

lemma create_assignment_pair:
  assumes "count_pair s lk did \<le> 1"
  shows "count_pair (snd (create_assignment s uid now lk' did' who)) lk did \<le> 1"
  using assms
  by (auto simp: create_assignment_def count_pair_def Let_def find_None_iff filter_empty_conv
           split: option.splits)

lemma delete_assignment_pair:
  assumes "count_pair s lk did \<le> n"
  shows "count_pair (snd (delete_assignment s aid)) lk did \<le> n"
proof -
  have "length (filter (\<lambda>a. a_license_key a = lk \<and> a_device_id a = did)
          (filter (\<lambda>a. assignment_id a \<noteq> aid) (assignments s)))
        \<le> length (filter (\<lambda>a. a_license_key a = lk \<and> a_device_id a = did) (assignments s))"
    by (rule length_filter_filter_le)
  with assms show ?thesis
    by (simp add: count_pair_def delete_assignment_assignments)
qed

lemma exec_op_pair:
  assumes "count_pair s lk did \<le> 1"
  shows "count_pair (exec_op s op) lk did \<le> 1"
proof (cases op)
  case (Assign uid now lk' did' who)
  from assms have "count_pair (snd (create_assignment s uid now lk' did' who)) lk did \<le> 1"
    by (rule create_assignment_pair)
  with Assign show ?thesis by simp
next
  case (Release aid)
  from assms have "count_pair (snd (delete_assignment s aid)) lk did \<le> 1"
    by (rule delete_assignment_pair)
  with Release show ?thesis by simp
qed

section \<open>The capacity invariant\<close>

text \<open>
  Claim C1. Let \<open>L\<close> be the license a lookup of the key \<open>lk\<close> returns, and let the store
  hold at most \<open>max_usage L\<close> assignments of \<open>lk\<close>. Then after any sequence of
  \<^verbatim>\<open>create_assignment\<close> and \<^verbatim>\<open>delete_assignment\<close> calls, executed one after the other,
  whatever their arguments and whether they return or raise, the store still holds at
  most \<open>max_usage L\<close> assignments of \<open>lk\<close>. Every reachable state is the end of such a
  sequence, so the bound holds in every reachable state.
\<close>

theorem capacity_invariant:
  "find (\<lambda>l. license_key l = lk) (licenses s) = Some L \<Longrightarrow>
   count_assignments s lk \<le> max_usage L \<Longrightarrow>
   count_assignments (run s ops) lk \<le> max_usage L"
  unfolding run_def
proof (induction ops arbitrary: s)
  case Nil
  then show ?case by simp
next
  case (Cons op ops)
  have "find (\<lambda>l. license_key l = lk) (licenses (exec_op s op)) = Some L"
    using Cons.prems(1) by (simp add: exec_op_licenses)
  moreover have "count_assignments (exec_op s op) lk \<le> max_usage L"
    using Cons.prems by (rule exec_op_capacity)
  ultimately show ?case using Cons.IH by simp
qed

theorem capacity_invariant_witness:
  "find (\<lambda>l. license_key l = ''LIC-1'') (licenses store_empty)
      = Some (example_license ''LIC-1'' 1005 2)
   \<and> count_assignments store_empty ''LIC-1'' \<le> max_usage (example_license ''LIC-1'' 1005 2)
   \<and> count_assignments (run store_empty three_assigns) ''LIC-1'' = 2
   \<and> count_assignments (run store_empty three_assigns) ''LIC-1''
        \<le> max_usage (example_license ''LIC-1'' 1005 2)"
  using capacity_invariant
          [of "''LIC-1''" store_empty "example_license ''LIC-1'' 1005 2" three_assigns]
  by (simp add: store_defs example_defs run_def count_assignments_def create_assignment_def
        Let_def)

section \<open>The uniqueness invariant\<close>

text \<open>
  Claim C3. If at most one assignment binds the license \<open>lk\<close> to the device \<open>did\<close>, then
  after any sequence of \<^verbatim>\<open>create_assignment\<close> and \<^verbatim>\<open>delete_assignment\<close> calls, executed
  one after the other, at most one assignment binds that pair. A store without
  assignments is such a start, and every reachable state is the end of such a sequence.
\<close>

theorem uniqueness_invariant:
  "count_pair s lk did \<le> 1 \<Longrightarrow> count_pair (run s ops) lk did \<le> 1"
  unfolding run_def
proof (induction ops arbitrary: s)
  case Nil
  then show ?case by simp
next
  case (Cons op ops)
  have "count_pair (exec_op s op) lk did \<le> 1"
    using Cons.prems by (rule exec_op_pair)
  then show ?case using Cons.IH by simp
qed

theorem uniqueness_invariant_witness:
  "count_pair store_empty ''LIC-1'' ''DEV-A'' \<le> 1
   \<and> count_pair (run store_empty assign_twice) ''LIC-1'' ''DEV-A'' = 1
   \<and> count_pair (run store_empty assign_twice) ''LIC-1'' ''DEV-A'' \<le> 1"
  using uniqueness_invariant [of store_empty "''LIC-1''" "''DEV-A''" assign_twice]
  by (simp add: store_defs example_defs run_def count_pair_def create_assignment_def
        count_assignments_def Let_def)

section \<open>Assign: the preconditions in order\<close>









section \<open>Release\<close>

text \<open>
  The table of assignments never holds two rows with one id, the id being its primary
  key: \<open>distinct_ids_run\<close> shows that the engine keeps it so.
\<close>

lemma distinct_ids_exec_op:
  "distinct (map assignment_id (assignments s)) \<Longrightarrow>
   distinct (map assignment_id (assignments (exec_op s op)))"
proof (cases op)
  case (Assign uid now lk did who)
  assume "distinct (map assignment_id (assignments s))"
  then have "distinct (map assignment_id
               (assignments (snd (create_assignment s uid now lk did who))))"
    by (auto simp: create_assignment_def Let_def split: option.splits)
  with Assign show ?thesis by simp
next
  case (Release aid)
  assume "distinct (map assignment_id (assignments s))"
  then have "distinct (map assignment_id (filter (\<lambda>a. assignment_id a \<noteq> aid) (assignments s)))"
    by (rule distinct_map_filter)
  with Release show ?thesis by (simp add: delete_assignment_assignments)
qed

lemma distinct_ids_run:
  "distinct (map assignment_id (assignments s)) \<Longrightarrow>
   distinct (map assignment_id (assignments (run s ops)))"
  unfolding run_def
  by (induction ops arbitrary: s) (simp_all add: distinct_ids_exec_op)


text \<open>
  Claim C5. When no assignment has the id, \<^verbatim>\<open>delete_assignment\<close> raises 404
  "Assignment ... not found" and the store is unchanged. When the assignment \<open>a\<close> has the
  id (in a table whose ids are distinct, as a primary key is), it returns the license
  key and the device id of \<open>a\<close>, and the store after the call is the store before it
  without the row \<open>a\<close>: one row fewer, every other row and every other table as before.
\<close>

theorem delete_assignment_release:
  "((\<forall>a\<in>set (assignments s). assignment_id a \<noteq> aid) \<longrightarrow>
      delete_assignment s aid =
        (Inl (HTTPException 404 (''Assignment '' @ aid @ '' not found'')), s))
   \<and> (distinct (map assignment_id (assignments s)) \<and> a \<in> set (assignments s)
        \<and> assignment_id a = aid \<longrightarrow>
      delete_assignment s aid =
        (Inr \<lparr>dr_message = ''Assignment '' @ aid @ '' deleted successfully'',
              dr_license_key = a_license_key a, dr_device_id = a_device_id a\<rparr>,
         s\<lparr>assignments := remove1 a (assignments s)\<rparr>)
      \<and> a \<notin> set (remove1 a (assignments s))
      \<and> length (remove1 a (assignments s)) + 1 = length (assignments s))"
proof (intro conjI impI)
  assume "\<forall>a\<in>set (assignments s). assignment_id a \<noteq> aid"
  then have "find (\<lambda>a. assignment_id a = aid) (assignments s) = None"
    by (simp add: find_None_iff)
  then show "delete_assignment s aid =
        (Inl (HTTPException 404 (''Assignment '' @ aid @ '' not found'')), s)"
    by (simp add: delete_assignment_def get_assignment_by_id_def)
next
  assume h: "distinct (map assignment_id (assignments s)) \<and> a \<in> set (assignments s)
        \<and> assignment_id a = aid"
  then have d: "distinct (map assignment_id (assignments s))" and m: "a \<in> set (assignments s)"
    and i: "assignment_id a = aid" by blast+
  from d m have "find (\<lambda>x. assignment_id x = assignment_id a) (assignments s) = Some a"
    by (rule find_distinct_key)
  moreover from d m have
    "filter (\<lambda>x. assignment_id x \<noteq> assignment_id a) (assignments s) = remove1 a (assignments s)"
    by (rule filter_neq_remove1)
  ultimately show "delete_assignment s aid =
        (Inr \<lparr>dr_message = ''Assignment '' @ aid @ '' deleted successfully'',
              dr_license_key = a_license_key a, dr_device_id = a_device_id a\<rparr>,
         s\<lparr>assignments := remove1 a (assignments s)\<rparr>)"
    using i by (simp add: delete_assignment_def get_assignment_by_id_def)
  from d have "distinct (assignments s)" by (simp add: distinct_map)
  then show "a \<notin> set (remove1 a (assignments s))" by simp
  from m show "length (remove1 a (assignments s)) + 1 = length (assignments s)"
    by (simp add: length_remove1) (cases "assignments s", auto)
qed

theorem delete_assignment_release_witness:
  "delete_assignment store_full ''nope'' =
     (Inl (HTTPException 404 ''Assignment nope not found''), store_full)
   \<and> delete_assignment store_full ''u1'' =
     (Inr \<lparr>dr_message = ''Assignment u1 deleted successfully'',
           dr_license_key = ''LIC-1'', dr_device_id = ''DEV-A''\<rparr>,
      store_full\<lparr>assignments := [example_assignment ''u2'' ''LIC-1'' ''DEV-B'']\<rparr>)"
proof -
  let ?a = "example_assignment ''u1'' ''LIC-1'' ''DEV-A''"
  have h1: "\<forall>a\<in>set (assignments store_full). assignment_id a \<noteq> ''nope''"
    by (simp add: store_defs example_defs)
  have h2: "distinct (map assignment_id (assignments store_full))
        \<and> ?a \<in> set (assignments store_full) \<and> assignment_id ?a = ''u1''"
    by (simp add: store_defs example_defs)
  have r: "remove1 ?a (assignments store_full) = [example_assignment ''u2'' ''LIC-1'' ''DEV-B'']"
    by (simp add: store_defs example_defs)
  from delete_assignment_release [where s = store_full and aid = "''nope''"] h1
  have c1: "delete_assignment store_full ''nope'' =
     (Inl (HTTPException 404 ''Assignment nope not found''), store_full)"
    by simp
  from delete_assignment_release [where s = store_full and aid = "''u1''" and a = ?a] h2
  have "delete_assignment store_full ''u1'' =
        (Inr \<lparr>dr_message = ''Assignment '' @ ''u1'' @ '' deleted successfully'',
              dr_license_key = a_license_key ?a, dr_device_id = a_device_id ?a\<rparr>,
         store_full\<lparr>assignments := remove1 ?a (assignments store_full)\<rparr>)"
    by blast
  with r have c2: "delete_assignment store_full ''u1'' =
     (Inr \<lparr>dr_message = ''Assignment u1 deleted successfully'',
           dr_license_key = ''LIC-1'', dr_device_id = ''DEV-A''\<rparr>,
      store_full\<lparr>assignments := [example_assignment ''u2'' ''LIC-1'' ''DEV-B'']\<rparr>)"
    by (simp add: example_defs)
  from c1 c2 show ?thesis by blast
qed

section \<open>Rounding in double precision\<close>

text \<open>
  \<open>float_exponent\<close> finds the power of two below its argument, so that \<open>to_double\<close>
  is off by at most half a unit in the last place: a relative error of at most
  \<open>1 / 2^53\<close>.
\<close>

lemma bitlen_powi_bounds:
  assumes "0 < a"
  shows "(2::rat) powi (bitlen a - 1) \<le> of_int a" "of_int a < (2::rat) powi (bitlen a)"
proof -
  from assms have b: "1 \<le> bitlen a" by (simp add: bitlen_alt_def)
  from bitlen_bounds [OF assms] have l: "2 ^ nat (bitlen a - 1) \<le> a" and u: "a < 2 ^ nat (bitlen a)"
    by blast+
  from l have "(of_int (2 ^ nat (bitlen a - 1)) :: rat) \<le> of_int a" by (simp only: of_int_le_iff)
  then have "(2::rat) ^ nat (bitlen a - 1) \<le> of_int a" by simp
  moreover from b have "(2::rat) powi (bitlen a - 1) = 2 ^ nat (bitlen a - 1)"
    by (simp add: power_int_def)
  ultimately show "(2::rat) powi (bitlen a - 1) \<le> of_int a" by simp
  from u have "(of_int a :: rat) < of_int (2 ^ nat (bitlen a))" by (simp only: of_int_less_iff)
  then have "(of_int a :: rat) < 2 ^ nat (bitlen a)" by simp
  moreover from b have "(2::rat) powi (bitlen a) = 2 ^ nat (bitlen a)"
    by (simp add: power_int_def)
  ultimately show "of_int a < (2::rat) powi (bitlen a)" by simp
qed

lemma float_exponent_bounds:
  assumes "x \<noteq> 0"
  shows "2 powi (float_exponent x) \<le> \<bar>x\<bar>" "\<bar>x\<bar> < 2 powi (float_exponent x + 1)"
proof -
  obtain p q where pq: "quotient_of \<bar>x\<bar> = (p, q)" by (cases "quotient_of \<bar>x\<bar>") auto
  then have q: "0 < q" and x: "\<bar>x\<bar> = of_int p / of_int q"
    by (auto dest: quotient_of_denom_pos quotient_of_div)
  from assms have "0 < \<bar>x\<bar>" by simp
  with x q have p: "0 < p" by (simp add: zero_less_divide_iff)
  let ?d = "bitlen p - bitlen q"
  have pu: "of_int p < (2::rat) powi (bitlen p)" and pl: "(2::rat) powi (bitlen p - 1) \<le> of_int p"
    using bitlen_powi_bounds [OF p] by blast+
  have qu: "of_int q < (2::rat) powi (bitlen q)" and ql: "(2::rat) powi (bitlen q - 1) \<le> of_int q"
    using bitlen_powi_bounds [OF q] by blast+
  have qpos: "(0::rat) < of_int q" using q by simp
  have e1: "(2::rat) powi (?d + 1) = 2 powi (bitlen p) / 2 powi (bitlen q - 1)"
    by (simp add: power_int_diff [symmetric] algebra_simps)
  have e2: "(2::rat) powi (?d - 1) = 2 powi (bitlen p - 1) / 2 powi (bitlen q)"
    by (simp add: power_int_diff [symmetric] algebra_simps)
  have pw: "(0::rat) < 2 powi (bitlen q - 1)" "(0::rat) < 2 powi (bitlen p - 1)"
    by simp_all
  have "of_int p / of_int q < (2::rat) powi (bitlen p) / 2 powi (bitlen q - 1)"
    using p pu pw(1) ql by (intro frac_less) simp_all
  then have up: "\<bar>x\<bar> < 2 powi (?d + 1)"
    by (simp only: x e1)
  have "(2::rat) powi (bitlen p - 1) / 2 powi (bitlen q) < of_int p / of_int q"
    using pw(2) pl qpos qu by (intro frac_less2) simp_all
  then have lo: "2 powi (?d - 1) < \<bar>x\<bar>"
    by (simp only: x e2)
  have e3: "(2::rat) powi (?d - 1 + 1) = 2 powi ?d" by simp
  have fe: "float_exponent x = (if 2 powi ?d \<le> \<bar>x\<bar> then ?d else ?d - 1)"
    by (simp add: float_exponent_def pq Let_def)
  show "2 powi (float_exponent x) \<le> \<bar>x\<bar>"
    using lo by (simp add: fe)
  show "\<bar>x\<bar> < 2 powi (float_exponent x + 1)"
    using up e3 by (auto simp add: fe)
qed


lemma round_half_even_close: "\<bar>of_int (round_half_even y) - y\<bar> \<le> 1 / 2"
proof -
  have "of_int \<lfloor>y\<rfloor> \<le> y" "y < of_int \<lfloor>y\<rfloor> + 1" by linarith+
  then show ?thesis
    unfolding round_half_even_def Let_def by (auto split: if_splits)
qed

lemma to_double_close: "\<bar>to_double x - x\<bar> \<le> \<bar>x\<bar> / 2 ^ 53"
proof (cases "x = 0")
  case True
  then show ?thesis by (simp add: to_double_def)
next
  case False
  let ?u = "(2::rat) powi (float_exponent x - 52)"
  have u: "0 < ?u" by simp
  have t: "to_double x = of_int (round_half_even (x / ?u)) * ?u"
    using False by (simp add: to_double_def Let_def)
  have "\<bar>of_int (round_half_even (x / ?u)) - x / ?u\<bar> \<le> 1 / 2"
    by (rule round_half_even_close)
  then have "\<bar>of_int (round_half_even (x / ?u)) - x / ?u\<bar> * ?u \<le> 1 / 2 * ?u"
    using u by (intro mult_right_mono) simp_all
  moreover have "\<bar>of_int (round_half_even (x / ?u)) - x / ?u\<bar> * ?u
      = \<bar>of_int (round_half_even (x / ?u)) * ?u - x\<bar>"
  proof -
    have "\<bar>of_int (round_half_even (x / ?u)) - x / ?u\<bar> * ?u
        = \<bar>(of_int (round_half_even (x / ?u)) - x / ?u) * ?u\<bar>"
      using u by (simp add: abs_mult)
    also have "(of_int (round_half_even (x / ?u)) - x / ?u) * ?u
        = of_int (round_half_even (x / ?u)) * ?u - x"
      using u by (simp add: algebra_simps)
    finally show ?thesis .
  qed
  ultimately have a: "\<bar>to_double x - x\<bar> \<le> ?u / 2" by (simp add: t)
  have "?u = 2 powi (float_exponent x) / 2 ^ 52"
    by (simp add: power_int_diff)
  moreover have "2 powi (float_exponent x) \<le> \<bar>x\<bar>"
    using False by (rule float_exponent_bounds)
  ultimately have "?u / 2 \<le> \<bar>x\<bar> / 2 ^ 53" by simp
  with a show ?thesis by linarith
qed

lemma abs_le_both: "\<bar>x - y\<bar> \<le> (e::rat) \<Longrightarrow> x - y \<le> e \<and> y - x \<le> e"
  by (simp add: abs_le_iff)

lemma percent_chain:
  fixes q a b k p :: rat
  assumes q: "0 \<le> q"
      and a: "\<bar>a - q\<bar> \<le> \<bar>q\<bar> / 2 ^ 53"
      and b: "\<bar>b - a * 100\<bar> \<le> \<bar>a * 100\<bar> / 2 ^ 53"
      and k: "\<bar>k - b\<bar> \<le> 1 / 200"
      and p: "\<bar>p - k\<bar> \<le> \<bar>k\<bar> / 2 ^ 53"
  shows "\<bar>p - 100 * q\<bar> \<le> 1 / 200 + (100 * q + 1) / 2 ^ 50"
proof -
  define d :: rat where "d = 1 / 2 ^ 53"
  have d: "d = 1 / 9007199254740992" by (simp add: d_def)
  from q have "\<bar>q\<bar> / 2 ^ 53 = q * d" by (simp add: d_def)
  with a have "\<bar>a - q\<bar> \<le> q * d" by simp
  then have a1: "a - q \<le> q * d" "q - a \<le> q * d" using abs_le_both by blast+
  have qd: "q * d \<le> q" using q by (simp add: d mult_left_le)
  with a1 have a0: "0 \<le> a" by linarith
  then have "\<bar>a * 100\<bar> / 2 ^ 53 = 100 * (a * d)" by (simp add: d_def)
  with b have "\<bar>b - a * 100\<bar> \<le> 100 * (a * d)" by simp
  then have b1: "b - a * 100 \<le> 100 * (a * d)" "a * 100 - b \<le> 100 * (a * d)"
    using abs_le_both by blast+
  have ad: "a * d \<le> a" using a0 by (simp add: d mult_left_le)
  have ad0: "0 \<le> a * d" using a0 by (simp add: d)
  with b1 ad a0 have b0: "0 \<le> b" by linarith
  from k have k1: "k - b \<le> 1 / 200" "b - k \<le> 1 / 200" using abs_le_both by blast+
  from b0 k1 have k2: "\<bar>k\<bar> \<le> b + 1 / 200" by (simp add: abs_le_iff)
  have kd: "\<bar>k\<bar> / 2 ^ 53 = \<bar>k\<bar> * d" by (simp add: d_def)
  have "\<bar>p - k\<bar> \<le> \<bar>k\<bar> * d" using p unfolding kd .
  moreover have "\<bar>k\<bar> * d \<le> (b + 1 / 200) * d"
    using k2 by (intro mult_right_mono) (simp_all add: d)
  ultimately have "\<bar>p - k\<bar> \<le> (b + 1 / 200) * d" by (rule order_trans)
  then have p1: "p - k \<le> (b + 1 / 200) * d" "k - p \<le> (b + 1 / 200) * d"
    using abs_le_both by blast+
  have qd2: "a * d \<le> 2 * (q * d)"
  proof -
    from a1 qd have "a \<le> 2 * q" by linarith
    then have "a * d \<le> (2 * q) * d" by (intro mult_right_mono) (simp_all add: d)
    then show ?thesis by simp
  qed
  have qd0: "0 \<le> q * d" using q by (simp add: d)
  have bd: "b * d \<le> 400 * (q * d)"
  proof -
    from a1 b1 qd ad have "b \<le> 400 * q" by linarith
    then have "b * d \<le> (400 * q) * d" by (intro mult_right_mono) (simp_all add: d)
    then show ?thesis by simp
  qed
  have e: "(b + 1 / 200) * d = b * d + d / 200" by (simp add: algebra_simps)
  have f: "(100 * q + 1) / 2 ^ 50 = 800 * (q * d) + 8 * d" by (simp add: d)
  have d0: "0 \<le> d" by (simp add: d)
  from a1 b1 k1 p1 qd2 qd0 bd d0 have "p - 100 * q \<le> 1 / 200 + (800 * (q * d) + 8 * d)"
    unfolding e by linarith
  moreover from a1 b1 k1 p1 qd2 qd0 bd d0 have "100 * q - p \<le> 1 / 200 + (800 * (q * d) + 8 * d)"
    unfolding e by linarith
  ultimately show ?thesis unfolding f by (simp add: abs_le_iff)
qed

lemma percent_close:
  assumes "0 \<le> q"
  shows "\<bar>py_round2 (float_mul (to_double q) 100) - 100 * q\<bar> \<le> 1 / 200 + (100 * q + 1) / 2 ^ 50"
proof -
  let ?a = "to_double q"
  let ?b = "float_mul ?a 100"
  let ?k = "of_int (round_half_even (?b * 100)) / 100 :: rat"
  have a: "\<bar>?a - q\<bar> \<le> \<bar>q\<bar> / 2 ^ 53" by (rule to_double_close)
  have b: "\<bar>?b - ?a * 100\<bar> \<le> \<bar>?a * 100\<bar> / 2 ^ 53"
    unfolding float_mul_def by (rule to_double_close)
  have "\<bar>of_int (round_half_even (?b * 100)) - ?b * 100\<bar> \<le> 1 / 2"
    by (rule round_half_even_close)
  then have k: "\<bar>?k - ?b\<bar> \<le> 1 / 200" by (simp add: field_simps abs_le_iff)
  have p: "\<bar>py_round2 ?b - ?k\<bar> \<le> \<bar>?k\<bar> / 2 ^ 53"
    unfolding py_round2_def by (rule to_double_close)
  from assms a b k p show ?thesis by (rule percent_chain)
qed

lemma percent_of_counts_close:
  assumes "0 \<le> c" and "0 < m"
  shows "\<bar>py_round2 (float_mul (float_div c m) 100) - 100 * (of_int c / of_int m)\<bar>
           \<le> 1 / 200 + (100 * (of_int c / of_int m) + 1) / 2 ^ 50"
proof -
  from assms have "(0::rat) \<le> of_int c / of_int m" by simp
  then show ?thesis unfolding float_div_def by (rule percent_close)
qed

text \<open>
  Four values of \<^verbatim>\<open>round(c / m * 100, 2)\<close>: 33.33, 14.37, 69.99 and 90.0 are the doubles
  nearest to 3333/100, 1437/100, 6999/100 and 90. At 23 of 160 and at 13999 of 20000
  the product is just below the tie (14.375 and 69.995), so it is rounded down, and
  69.99 is below the WARNING threshold. \<^verbatim>\<open>10 * 0.9\<close> is 9.
\<close>

lemma percent_examples:
  "py_round2 (float_mul (float_div 1 3) 100) = 2345390243441541 / 70368744177664"
  "py_round2 (float_mul (float_div 23 160) 100) = 8089590830664253 / 562949953421312"
  "py_round2 (float_mul (float_div 13999 20000) 100) = 4925108404994703 / 70368744177664"
  "py_round2 (float_mul (float_div 89995 100000) 100) = 90"
  "to_double (3333 / 100) = 2345390243441541 / 70368744177664"
  "to_double (1437 / 100) = 8089590830664253 / 562949953421312"
  "to_double (6999 / 100) = 4925108404994703 / 70368744177664"
  "float_mul (float_div 23 160) 100 = 8092405580431359 / 562949953421312"
  "float_mul (float_div 13999 20000) 100 = 4925460248715591 / 70368744177664"
  "py_round2 (float_mul (float_div 13999 20000) 100) < 70"
  "float_mul (float_of_int 10) (to_double (9 / 10)) = 9"
  by code_simp+

section \<open>Utilization\<close>

text \<open>
  Claim C4, as the code has it. When no license has the key, \<^verbatim>\<open>get_license_utilization\<close>
  raises 404 "License ... not found". Otherwise, \<open>L\<close> being the license, it returns
  \<open>max_usage\<close> of \<open>L\<close>, the number of assignments of the key as \<open>current_usage\<close>,
  their difference as \<open>available\<close> (whatever its sign), and as \<open>utilization_percent\<close>,
  when \<open>max_usage\<close> is positive, the value of \<^verbatim>\<open>round(current_usage / max_usage * 100, 2)\<close>
  in double precision, and 0 when \<open>max_usage\<close> is not positive. That value is the double
  nearest to a number \<open>k/100\<close> with \<open>k\<close> an integer, and it differs from the exact
  percentage \<open>x = 100 * current_usage / max_usage\<close> by at most \<open>1/200 + (x + 1) / 2^50\<close>.
  The status is CRITICAL when the returned percentage is at least 90, WARNING when it
  is at least 70, OK otherwise.
\<close>

theorem get_license_utilization_report:
  "((\<forall>l\<in>set (licenses s). license_key l \<noteq> lk) \<longrightarrow>
      get_license_utilization s lk =
        Inl (HTTPException 404 (''License '' @ lk @ '' not found'')))
   \<and> (find (\<lambda>l. license_key l = lk) (licenses s) = Some L \<longrightarrow>
      (\<exists>r. get_license_utilization s lk = Inr r
         \<and> u_max_usage r = max_usage L
         \<and> u_current_usage r =
             int (length (filter (\<lambda>a. a_license_key a = lk) (assignments s)))
         \<and> u_available r = u_max_usage r - u_current_usage r
         \<and> u_utilization_percent r =
             (if max_usage L > 0
              then py_round2 (float_mul (float_div (u_current_usage r) (u_max_usage r)) 100)
              else 0)
         \<and> (\<exists>k::int. u_utilization_percent r = to_double (of_int k / 100))
         \<and> (max_usage L > 0 \<longrightarrow>
               \<bar>u_utilization_percent r
                   - 100 * (of_int (u_current_usage r) / of_int (u_max_usage r))\<bar>
                 \<le> 1 / 200
                    + (100 * (of_int (u_current_usage r) / of_int (u_max_usage r)) + 1) / 2 ^ 50)
         \<and> u_status r =
             (if u_utilization_percent r \<ge> 90 then ''CRITICAL''
              else if u_utilization_percent r \<ge> 70 then ''WARNING'' else ''OK'')))"
proof (intro conjI impI)
  assume "\<forall>l\<in>set (licenses s). license_key l \<noteq> lk"
  then have "find (\<lambda>l. license_key l = lk) (licenses s) = None"
    by (simp add: find_None_iff)
  then show "get_license_utilization s lk =
        Inl (HTTPException 404 (''License '' @ lk @ '' not found''))"
    by (simp add: get_license_utilization_def)
next
  assume f: "find (\<lambda>l. license_key l = lk) (licenses s) = Some L"
  let ?c = "int (length (filter (\<lambda>a. a_license_key a = lk) (assignments s)))"
  let ?p = "if max_usage L > 0 then py_round2 (float_mul (float_div ?c (max_usage L)) 100)
            else 0"
  let ?r = "\<lparr>u_license_key = lk, u_software_name = software_name L,
              u_max_usage = max_usage L, u_current_usage = ?c,
              u_available = max_usage L - ?c, u_utilization_percent = ?p,
              u_status = (if ?p \<ge> 90 then ''CRITICAL''
                          else if ?p \<ge> 70 then ''WARNING'' else ''OK'')\<rparr>"
  have g: "get_license_utilization s lk = Inr ?r"
    using f by (simp add: get_license_utilization_def count_assignments_def Let_def)
  have k: "\<exists>k::int. ?p = to_double (of_int k / 100)"
  proof (cases "max_usage L > 0")
    case True
    then show ?thesis by (auto simp: py_round2_def)
  next
    case False
    have "(0::rat) = to_double (of_int 0 / 100)" by (simp add: to_double_def)
    with False show ?thesis by (simp del: of_int_0) blast
  qed
  have e: "max_usage L > 0 \<longrightarrow>
      \<bar>?p - 100 * (of_int ?c / of_int (max_usage L))\<bar>
        \<le> 1 / 200 + (100 * (of_int ?c / of_int (max_usage L)) + 1) / 2 ^ 50"
  proof
    assume m: "max_usage L > 0"
    have "\<bar>py_round2 (float_mul (float_div ?c (max_usage L)) 100)
             - 100 * (of_int ?c / of_int (max_usage L))\<bar>
        \<le> 1 / 200 + (100 * (of_int ?c / of_int (max_usage L)) + 1) / 2 ^ 50"
      using m by (intro percent_of_counts_close) simp_all
    with m show "\<bar>?p - 100 * (of_int ?c / of_int (max_usage L))\<bar>
        \<le> 1 / 200 + (100 * (of_int ?c / of_int (max_usage L)) + 1) / 2 ^ 50"
      by (simp only: if_True)
  qed
  show "\<exists>r. get_license_utilization s lk = Inr r
         \<and> u_max_usage r = max_usage L
         \<and> u_current_usage r =
             int (length (filter (\<lambda>a. a_license_key a = lk) (assignments s)))
         \<and> u_available r = u_max_usage r - u_current_usage r
         \<and> u_utilization_percent r =
             (if max_usage L > 0
              then py_round2 (float_mul (float_div (u_current_usage r) (u_max_usage r)) 100)
              else 0)
         \<and> (\<exists>k::int. u_utilization_percent r = to_double (of_int k / 100))
         \<and> (max_usage L > 0 \<longrightarrow>
               \<bar>u_utilization_percent r
                   - 100 * (of_int (u_current_usage r) / of_int (u_max_usage r))\<bar>
                 \<le> 1 / 200
                    + (100 * (of_int (u_current_usage r) / of_int (u_max_usage r)) + 1) / 2 ^ 50)
         \<and> u_status r =
             (if u_utilization_percent r \<ge> 90 then ''CRITICAL''
              else if u_utilization_percent r \<ge> 70 then ''WARNING'' else ''OK'')"
  proof (rule exI [of _ ?r], intro conjI)
    show "get_license_utilization s lk = Inr ?r" by (rule g)
    show "\<exists>k::int. u_utilization_percent ?r = to_double (of_int k / 100)"
      using k by simp
    show "max_usage L > 0 \<longrightarrow>
               \<bar>u_utilization_percent ?r
                   - 100 * (of_int (u_current_usage ?r) / of_int (u_max_usage ?r))\<bar>
                 \<le> 1 / 200
                    + (100 * (of_int (u_current_usage ?r) / of_int (u_max_usage ?r)) + 1) / 2 ^ 50"
      using e by simp
  qed simp_all
qed

theorem get_license_utilization_report_witness:
  "get_license_utilization store_23_of_160 ''NOPE'' =
     Inl (HTTPException 404 ''License NOPE not found'')
   \<and> (\<exists>r. get_license_utilization store_23_of_160 ''LIC-T'' = Inr r
        \<and> u_max_usage r = 160 \<and> u_current_usage r = 23 \<and> u_available r = 137
        \<and> u_utilization_percent r = 8089590830664253 / 562949953421312
        \<and> u_status r = ''OK'')"
proof -
  let ?L = "example_license ''LIC-T'' 1100 160"
  have h1: "\<forall>l\<in>set (licenses store_23_of_160). license_key l \<noteq> ''NOPE''"
    by (simp add: store_23_of_160_def example_defs)
  have h2: "find (\<lambda>l. license_key l = ''LIC-T'') (licenses store_23_of_160) = Some ?L"
    by (simp add: store_23_of_160_def example_defs)
  have m: "max_usage ?L = 160" by (simp add: example_defs)
  have c: "int (length (filter (\<lambda>a. a_license_key a = ''LIC-T'')
             (assignments store_23_of_160))) = 23"
    by code_simp
  have p: "py_round2 (float_mul (float_div 23 160) 100) = 8089590830664253 / 562949953421312"
    by code_simp
  from get_license_utilization_report [where s = store_23_of_160 and lk = "''NOPE''"] h1
  have c1: "get_license_utilization store_23_of_160 ''NOPE'' =
     Inl (HTTPException 404 ''License NOPE not found'')"
    by simp
  from get_license_utilization_report
         [where s = store_23_of_160 and lk = "''LIC-T''" and L = ?L] h2
  obtain r where r: "get_license_utilization store_23_of_160 ''LIC-T'' = Inr r"
         "u_max_usage r = max_usage ?L"
         "u_current_usage r =
             int (length (filter (\<lambda>a. a_license_key a = ''LIC-T'')
               (assignments store_23_of_160)))"
         "u_available r = u_max_usage r - u_current_usage r"
         "u_utilization_percent r =
             (if max_usage ?L > 0
              then py_round2 (float_mul (float_div (u_current_usage r) (u_max_usage r)) 100)
              else 0)"
         "u_status r =
             (if u_utilization_percent r \<ge> 90 then ''CRITICAL''
              else if u_utilization_percent r \<ge> 70 then ''WARNING'' else ''OK'')"
    by blast
  from r(2) m have a: "u_max_usage r = 160" by simp
  from r(3) c have b: "u_current_usage r = 23" by simp
  from r(4) a b have d: "u_available r = 137" by simp
  from r(5) m a b have "u_utilization_percent r = py_round2 (float_mul (float_div 23 160) 100)"
    by simp
  with p have e: "u_utilization_percent r = 8089590830664253 / 562949953421312" by simp
  from r(6) e have f: "u_status r = ''OK''" by simp
  from c1 r(1) a b d e f show ?thesis by blast
qed

text \<open>
  Claim C4 as stated gives the percentage as \<open>current_usage / max_usage * 100\<close>. With one
  assignment of a license of capacity 3 the function returns the double 33.33, which
  is neither the number 100/3 nor the double that \<^verbatim>\<open>1 / 3 * 100\<close> evaluates to.
\<close>

theorem get_license_utilization_counterexample:
  "get_license_utilization store_third ''LIC-3'' =
     Inr \<lparr>u_license_key = ''LIC-3'', u_software_name = ''Suite'', u_max_usage = 3,
           u_current_usage = 1, u_available = 2,
           u_utilization_percent = 2345390243441541 / 70368744177664,
           u_status = ''OK''\<rparr>
   \<and> (2345390243441541 / 70368744177664 :: rat) = to_double (3333 / 100)
   \<and> (2345390243441541 / 70368744177664 :: rat) \<noteq> 1 / 3 * 100
   \<and> (2345390243441541 / 70368744177664 :: rat) \<noteq> float_mul (float_div 1 3) 100"
  by code_simp

section \<open>Expiring licenses\<close>

text \<open>
  Claim C6. The list \<^verbatim>\<open>get_expiring_licenses\<close> returns holds exactly the licenses whose
  \<open>valid_to\<close> lies between today and today plus the lookahead, both included (the keys
  of its entries are the keys of those licenses, each as often); it is sorted ascending
  by \<open>days_until_expiry\<close>; every entry has \<open>days_until_expiry = valid_to - today\<close> and
  the severity CRITICAL when that is at most 7, HIGH when at most 15, MEDIUM when at
  most 30, LOW otherwise; and the severity of 7, 8, 15, 16, 30, 31 days is CRITICAL,
  HIGH, HIGH, MEDIUM, MEDIUM, LOW.
\<close>

theorem get_expiring_licenses_window:
  "mset (map ea_license_key (get_expiring_licenses s today n)) =
     mset (map license_key
       (filter (\<lambda>l. today \<le> valid_to l \<and> valid_to l \<le> today + n) (licenses s)))
   \<and> sorted (map ea_days_until_expiry (get_expiring_licenses s today n))
   \<and> (\<forall>e\<in>set (get_expiring_licenses s today n).
         today \<le> ea_valid_to e \<and> ea_valid_to e \<le> today + n
         \<and> ea_days_until_expiry e = ea_valid_to e - today
         \<and> (\<exists>l\<in>set (licenses s). license_key l = ea_license_key e
               \<and> valid_to l = ea_valid_to e)
         \<and> ea_severity e =
             (if ea_days_until_expiry e \<le> 7 then ''CRITICAL''
              else if ea_days_until_expiry e \<le> 15 then ''HIGH''
              else if ea_days_until_expiry e \<le> 30 then ''MEDIUM'' else ''LOW''))
   \<and> get_expiry_severity 7 = ''CRITICAL'' \<and> get_expiry_severity 8 = ''HIGH''
   \<and> get_expiry_severity 15 = ''HIGH'' \<and> get_expiry_severity 16 = ''MEDIUM''
   \<and> get_expiry_severity 30 = ''MEDIUM'' \<and> get_expiry_severity 31 = ''LOW''"
proof -
  let ?w = "\<lambda>l. valid_to l \<le> today + n \<and> valid_to l \<ge> today"
  let ?w' = "\<lambda>l. today \<le> valid_to l \<and> valid_to l \<le> today + n"
  have w: "filter ?w (licenses s) = filter ?w' (licenses s)"
    by (rule filter_cong) auto
  have g: "get_expiring_licenses s today n =
             sort_key ea_days_until_expiry (map (expiry_alert_of s today) (filter ?w' (licenses s)))"
    unfolding get_expiring_licenses_def Let_def w ..
  have k: "ea_license_key \<circ> expiry_alert_of s today = license_key"
    by (rule ext) (simp add: expiry_alert_of_def Let_def)
  have "mset (map ea_license_key (get_expiring_licenses s today n)) =
          mset (map ea_license_key (map (expiry_alert_of s today) (filter ?w' (licenses s))))"
    unfolding g by (simp only: mset_map mset_sort)
  then have 1: "mset (map ea_license_key (get_expiring_licenses s today n)) =
     mset (map license_key (filter ?w' (licenses s)))"
    by (simp only: map_map k)
  have 2: "sorted (map ea_days_until_expiry (get_expiring_licenses s today n))"
    unfolding g by (rule sorted_sort_key)
  have 3: "\<forall>e\<in>set (get_expiring_licenses s today n).
         today \<le> ea_valid_to e \<and> ea_valid_to e \<le> today + n
         \<and> ea_days_until_expiry e = ea_valid_to e - today
         \<and> (\<exists>l\<in>set (licenses s). license_key l = ea_license_key e
               \<and> valid_to l = ea_valid_to e)
         \<and> ea_severity e =
             (if ea_days_until_expiry e \<le> 7 then ''CRITICAL''
              else if ea_days_until_expiry e \<le> 15 then ''HIGH''
              else if ea_days_until_expiry e \<le> 30 then ''MEDIUM'' else ''LOW'')"
    unfolding g by (auto simp: expiry_alert_of_def Let_def get_expiry_severity_def)
  have 4: "get_expiry_severity 7 = ''CRITICAL'' \<and> get_expiry_severity 8 = ''HIGH''
   \<and> get_expiry_severity 15 = ''HIGH'' \<and> get_expiry_severity 16 = ''MEDIUM''
   \<and> get_expiry_severity 30 = ''MEDIUM'' \<and> get_expiry_severity 31 = ''LOW''"
    by (simp add: get_expiry_severity_def)
  from 1 2 3 4 show ?thesis by blast
qed

theorem get_expiring_licenses_window_witness:
  "map ea_license_key (get_expiring_licenses store_expiry 1000 30) = [''L5'', ''L20'', ''L29'']
   \<and> map ea_days_until_expiry (get_expiring_licenses store_expiry 1000 30) = [5, 20, 29]
   \<and> map ea_severity (get_expiring_licenses store_expiry 1000 30)
        = [''CRITICAL'', ''MEDIUM'', ''MEDIUM'']
   \<and> sorted (map ea_days_until_expiry (get_expiring_licenses store_expiry 1000 30))
   \<and> mset (map ea_license_key (get_expiring_licenses store_expiry 1000 30)) =
       mset (map license_key
         (filter (\<lambda>l. 1000 \<le> valid_to l \<and> valid_to l \<le> 1000 + 30) (licenses store_expiry)))"
proof -
  have e: "map ea_license_key (get_expiring_licenses store_expiry 1000 30)
             = [''L5'', ''L20'', ''L29'']"
          "map ea_days_until_expiry (get_expiring_licenses store_expiry 1000 30) = [5, 20, 29]"
          "map ea_severity (get_expiring_licenses store_expiry 1000 30)
             = [''CRITICAL'', ''MEDIUM'', ''MEDIUM'']"
    by code_simp+
  from get_expiring_licenses_window [of store_expiry 1000 30]
  have "sorted (map ea_days_until_expiry (get_expiring_licenses store_expiry 1000 30))
   \<and> mset (map ea_license_key (get_expiring_licenses store_expiry 1000 30)) =
       mset (map license_key
         (filter (\<lambda>l. 1000 \<le> valid_to l \<and> valid_to l \<le> 1000 + 30) (licenses store_expiry)))"
    by blast
  with e show ?thesis by blast
qed

section \<open>The compliance reports\<close>

text \<open>
  Both report loops sort each license into the bucket \<open>spec_bucket\<close> gives it, and count
  or collect the overused ones by their own test.
\<close>

lemma report_compliance_loop_eq:
  "report_compliance_loop s today ls (v, e30, e60, ex, ov, un) =
     (v @ map (license_data_of s today) (filter (in_bucket today Valid) ls),
      e30 @ map (license_data_of s today) (filter (in_bucket today Expiring30) ls),
      e60 @ map (license_data_of s today) (filter (in_bucket today Expiring60) ls),
      ex @ map (license_data_of s today) (filter (in_bucket today Expired) ls),
      ov @ map (license_data_of s today) (filter (\<lambda>l. usage_percentage_of s l \<ge> 90) ls),
      un @ map (license_data_of s today) (filter (\<lambda>l. usage_percentage_of s l < 30) ls))"
proof (induction ls arbitrary: v e30 e60 ex ov un)
  case Nil
  then show ?case by simp
next
  case (Cons l ls)
  show ?case
    by (simp add: Cons.IH Let_def in_bucket_def spec_bucket_def)
qed

lemma alert_compliance_loop_eq:
  "alert_compliance_loop s today ls (v, e30, e60, ex, ov) =
     (v + int (length (filter (in_bucket today Valid) ls)),
      e30 + int (length (filter (in_bucket today Expiring30) ls)),
      e60 + int (length (filter (in_bucket today Expiring60) ls)),
      ex + int (length (filter (in_bucket today Expired) ls)),
      ov + int (length (filter (\<lambda>l. (of_int (count_assignments s (license_key l)) :: rat)
                                    \<ge> float_mul (float_of_int (max_usage l))
                                         (to_double (9 / 10))) ls)))"
proof (induction ls arbitrary: v e30 e60 ex ov)
  case Nil
  then show ?case by simp
next
  case (Cons l ls)
  show ?case
    by (simp add: Cons.IH Let_def in_bucket_def spec_bucket_def)
qed

lemma bucket_lengths:
  "length (filter (in_bucket today Valid) ls) + length (filter (in_bucket today Expiring30) ls)
     + length (filter (in_bucket today Expiring60) ls)
     + length (filter (in_bucket today Expired) ls) = length ls"
  by (induction ls) (auto simp: in_bucket_def spec_bucket_def)

lemma generate_report_lists:
  "cr_valid_licenses (generate_license_compliance_report s today) =
     map (license_data_of s today) (filter (in_bucket today Valid) (licenses s))"
  "cr_expiring_30_days (generate_license_compliance_report s today) =
     map (license_data_of s today) (filter (in_bucket today Expiring30) (licenses s))"
  "cr_expiring_60_days (generate_license_compliance_report s today) =
     map (license_data_of s today) (filter (in_bucket today Expiring60) (licenses s))"
  "cr_expired_licenses (generate_license_compliance_report s today) =
     map (license_data_of s today) (filter (in_bucket today Expired) (licenses s))"
  "cr_total_licenses (generate_license_compliance_report s today) = int (length (licenses s))"
  by (simp_all add: generate_license_compliance_report_def report_compliance_loop_eq Let_def)

lemma generate_report_summary:
  "rs_valid (cr_summary (generate_license_compliance_report s today)) =
     int (length (filter (in_bucket today Valid) (licenses s)))"
  "rs_expiring_30_days (cr_summary (generate_license_compliance_report s today)) =
     int (length (filter (in_bucket today Expiring30) (licenses s)))"
  "rs_expiring_60_days (cr_summary (generate_license_compliance_report s today)) =
     int (length (filter (in_bucket today Expiring60) (licenses s)))"
  "rs_expired (cr_summary (generate_license_compliance_report s today)) =
     int (length (filter (in_bucket today Expired) (licenses s)))"
  "rs_overused (cr_summary (generate_license_compliance_report s today)) =
     int (length (filter (\<lambda>l. usage_percentage_of s l \<ge> 90) (licenses s)))"
  by (simp_all add: generate_license_compliance_report_def report_compliance_loop_eq Let_def)

lemma generate_report_rate:
  "cr_compliance_rate (generate_license_compliance_report s today) =
     (if licenses s = [] then 0
      else py_round2 (float_mul (float_div
                        (int (length (filter (in_bucket today Valid) (licenses s))))
                        (int (length (licenses s)))) 100))"
  by (simp add: generate_license_compliance_report_def report_compliance_loop_eq Let_def)

lemma alert_report_fields:
  "ac_valid_licenses (get_license_compliance_report s today) =
     int (length (filter (in_bucket today Valid) (licenses s)))"
  "ac_expiring_within_30_days (get_license_compliance_report s today) =
     int (length (filter (in_bucket today Expiring30) (licenses s)))"
  "ac_expiring_within_60_days (get_license_compliance_report s today) =
     int (length (filter (in_bucket today Expiring60) (licenses s)))"
  "ac_expired_licenses (get_license_compliance_report s today) =
     int (length (filter (in_bucket today Expired) (licenses s)))"
  "ac_total_licenses (get_license_compliance_report s today) = int (length (licenses s))"
  "ac_overused_licenses (get_license_compliance_report s today) =
     int (length (filter (\<lambda>l. (of_int (count_assignments s (license_key l)) :: rat)
                                    \<ge> float_mul (float_of_int (max_usage l))
                                         (to_double (9 / 10))) (licenses s)))"
  by (simp_all add: get_license_compliance_report_def alert_compliance_loop_eq Let_def)

lemma alert_report_rate:
  "ac_compliance_rate (get_license_compliance_report s today) =
     (if licenses s = [] then 0
      else py_round2 (float_mul (float_div
                        (int (length (filter (in_bucket today Valid) (licenses s))))
                        (int (length (licenses s)))) 100))"
  by (simp add: get_license_compliance_report_def alert_compliance_loop_eq Let_def)

lemma bucket_lengths_int:
  "int (length (filter (in_bucket today Valid) ls))
     + int (length (filter (in_bucket today Expiring30) ls))
     + int (length (filter (in_bucket today Expiring60) ls))
     + int (length (filter (in_bucket today Expired) ls)) = int (length ls)"
  using bucket_lengths [of today ls] by linarith

text \<open>
  Claim C7, as the code has it. Every license is in exactly one of the four buckets
  of \<open>spec_bucket\<close> (expired when \<open>days_until_expiry < 0\<close>, expiring within 30 days when
  \<open>\<le> 30\<close>, within 60 days when \<open>\<le> 60\<close>, valid otherwise). The four lists of
  \<^verbatim>\<open>generate_license_compliance_report\<close> hold the data of the licenses of the four
  buckets, in store order; its four summary counts and the four counts of
  \<^verbatim>\<open>get_license_compliance_report\<close> are the sizes of the buckets; in both reports the
  four counts sum to \<open>total_licenses\<close>, the number of licenses; and in both
  \<open>compliance_rate\<close> is 0 when there is no license and otherwise the value of
  \<^verbatim>\<open>round(valid / total * 100, 2)\<close> in double precision, which differs from the exact
  percentage \<open>x = 100 * valid / total\<close> by at most \<open>1/200 + (x + 1) / 2^50\<close>.
\<close>

theorem compliance_report_buckets:
  "(\<forall>l\<in>set (licenses s). \<exists>!b. in_bucket today b l)
   \<and> cr_valid_licenses (generate_license_compliance_report s today) =
       map (license_data_of s today) (filter (in_bucket today Valid) (licenses s))
   \<and> cr_expiring_30_days (generate_license_compliance_report s today) =
       map (license_data_of s today) (filter (in_bucket today Expiring30) (licenses s))
   \<and> cr_expiring_60_days (generate_license_compliance_report s today) =
       map (license_data_of s today) (filter (in_bucket today Expiring60) (licenses s))
   \<and> cr_expired_licenses (generate_license_compliance_report s today) =
       map (license_data_of s today) (filter (in_bucket today Expired) (licenses s))
   \<and> rs_valid (cr_summary (generate_license_compliance_report s today)) =
       int (length (filter (in_bucket today Valid) (licenses s)))
   \<and> rs_expiring_30_days (cr_summary (generate_license_compliance_report s today)) =
       int (length (filter (in_bucket today Expiring30) (licenses s)))
   \<and> rs_expiring_60_days (cr_summary (generate_license_compliance_report s today)) =
       int (length (filter (in_bucket today Expiring60) (licenses s)))
   \<and> rs_expired (cr_summary (generate_license_compliance_report s today)) =
       int (length (filter (in_bucket today Expired) (licenses s)))
   \<and> ac_valid_licenses (get_license_compliance_report s today) =
       int (length (filter (in_bucket today Valid) (licenses s)))
   \<and> ac_expiring_within_30_days (get_license_compliance_report s today) =
       int (length (filter (in_bucket today Expiring30) (licenses s)))
   \<and> ac_expiring_within_60_days (get_license_compliance_report s today) =
       int (length (filter (in_bucket today Expiring60) (licenses s)))
   \<and> ac_expired_licenses (get_license_compliance_report s today) =
       int (length (filter (in_bucket today Expired) (licenses s)))
   \<and> cr_total_licenses (generate_license_compliance_report s today) = int (length (licenses s))
   \<and> ac_total_licenses (get_license_compliance_report s today) = int (length (licenses s))
   \<and> rs_valid (cr_summary (generate_license_compliance_report s today))
       + rs_expiring_30_days (cr_summary (generate_license_compliance_report s today))
       + rs_expiring_60_days (cr_summary (generate_license_compliance_report s today))
       + rs_expired (cr_summary (generate_license_compliance_report s today))
       = cr_total_licenses (generate_license_compliance_report s today)
   \<and> ac_valid_licenses (get_license_compliance_report s today)
       + ac_expiring_within_30_days (get_license_compliance_report s today)
       + ac_expiring_within_60_days (get_license_compliance_report s today)
       + ac_expired_licenses (get_license_compliance_report s today)
       = ac_total_licenses (get_license_compliance_report s today)
   \<and> cr_compliance_rate (generate_license_compliance_report s today) =
       (if cr_total_licenses (generate_license_compliance_report s today) = 0 then 0
        else py_round2 (float_mul (float_div
               (rs_valid (cr_summary (generate_license_compliance_report s today)))
               (cr_total_licenses (generate_license_compliance_report s today))) 100))
   \<and> ac_compliance_rate (get_license_compliance_report s today) =
       (if ac_total_licenses (get_license_compliance_report s today) = 0 then 0
        else py_round2 (float_mul (float_div
               (ac_valid_licenses (get_license_compliance_report s today))
               (ac_total_licenses (get_license_compliance_report s today))) 100))
   \<and> ac_compliance_rate (get_license_compliance_report s today)
       = cr_compliance_rate (generate_license_compliance_report s today)
   \<and> (licenses s \<noteq> [] \<longrightarrow>
        \<bar>cr_compliance_rate (generate_license_compliance_report s today)
            - 100 * (of_int (int (length (filter (in_bucket today Valid) (licenses s))))
                       / of_int (int (length (licenses s))))\<bar>
          \<le> 1 / 200
             + (100 * (of_int (int (length (filter (in_bucket today Valid) (licenses s))))
                         / of_int (int (length (licenses s)))) + 1) / 2 ^ 50)"
proof -
  have u: "\<forall>l\<in>set (licenses s). \<exists>!b. in_bucket today b l"
    by (simp add: in_bucket_def)
  have e: "(int (length (licenses s)) = 0) = (licenses s = [])" by simp
  have b: "licenses s \<noteq> [] \<longrightarrow>
        \<bar>cr_compliance_rate (generate_license_compliance_report s today)
            - 100 * (of_int (int (length (filter (in_bucket today Valid) (licenses s))))
                       / of_int (int (length (licenses s))))\<bar>
          \<le> 1 / 200
             + (100 * (of_int (int (length (filter (in_bucket today Valid) (licenses s))))
                         / of_int (int (length (licenses s)))) + 1) / 2 ^ 50"
  proof
    assume n: "licenses s \<noteq> []"
    then have "0 < int (length (licenses s))" by simp
    then have "\<bar>py_round2 (float_mul (float_div
                   (int (length (filter (in_bucket today Valid) (licenses s))))
                   (int (length (licenses s)))) 100)
            - 100 * (of_int (int (length (filter (in_bucket today Valid) (licenses s))))
                       / of_int (int (length (licenses s))))\<bar>
          \<le> 1 / 200
             + (100 * (of_int (int (length (filter (in_bucket today Valid) (licenses s))))
                         / of_int (int (length (licenses s)))) + 1) / 2 ^ 50"
      by (intro percent_of_counts_close) simp_all
    with n show "\<bar>cr_compliance_rate (generate_license_compliance_report s today)
            - 100 * (of_int (int (length (filter (in_bucket today Valid) (licenses s))))
                       / of_int (int (length (licenses s))))\<bar>
          \<le> 1 / 200
             + (100 * (of_int (int (length (filter (in_bucket today Valid) (licenses s))))
                         / of_int (int (length (licenses s)))) + 1) / 2 ^ 50"
      by (simp only: generate_report_rate if_False)
  qed
  have a: "(\<forall>l\<in>set (licenses s). \<exists>!b. in_bucket today b l)
   \<and> cr_valid_licenses (generate_license_compliance_report s today) =
       map (license_data_of s today) (filter (in_bucket today Valid) (licenses s))
   \<and> cr_expiring_30_days (generate_license_compliance_report s today) =
       map (license_data_of s today) (filter (in_bucket today Expiring30) (licenses s))
   \<and> cr_expiring_60_days (generate_license_compliance_report s today) =
       map (license_data_of s today) (filter (in_bucket today Expiring60) (licenses s))
   \<and> cr_expired_licenses (generate_license_compliance_report s today) =
       map (license_data_of s today) (filter (in_bucket today Expired) (licenses s))
   \<and> rs_valid (cr_summary (generate_license_compliance_report s today)) =
       int (length (filter (in_bucket today Valid) (licenses s)))
   \<and> rs_expiring_30_days (cr_summary (generate_license_compliance_report s today)) =
       int (length (filter (in_bucket today Expiring30) (licenses s)))
   \<and> rs_expiring_60_days (cr_summary (generate_license_compliance_report s today)) =
       int (length (filter (in_bucket today Expiring60) (licenses s)))
   \<and> rs_expired (cr_summary (generate_license_compliance_report s today)) =
       int (length (filter (in_bucket today Expired) (licenses s)))
   \<and> ac_valid_licenses (get_license_compliance_report s today) =
       int (length (filter (in_bucket today Valid) (licenses s)))
   \<and> ac_expiring_within_30_days (get_license_compliance_report s today) =
       int (length (filter (in_bucket today Expiring30) (licenses s)))
   \<and> ac_expiring_within_60_days (get_license_compliance_report s today) =
       int (length (filter (in_bucket today Expiring60) (licenses s)))
   \<and> ac_expired_licenses (get_license_compliance_report s today) =
       int (length (filter (in_bucket today Expired) (licenses s)))
   \<and> cr_total_licenses (generate_license_compliance_report s today) = int (length (licenses s))
   \<and> ac_total_licenses (get_license_compliance_report s today) = int (length (licenses s))
   \<and> rs_valid (cr_summary (generate_license_compliance_report s today))
       + rs_expiring_30_days (cr_summary (generate_license_compliance_report s today))
       + rs_expiring_60_days (cr_summary (generate_license_compliance_report s today))
       + rs_expired (cr_summary (generate_license_compliance_report s today))
       = cr_total_licenses (generate_license_compliance_report s today)
   \<and> ac_valid_licenses (get_license_compliance_report s today)
       + ac_expiring_within_30_days (get_license_compliance_report s today)
       + ac_expiring_within_60_days (get_license_compliance_report s today)
       + ac_expired_licenses (get_license_compliance_report s today)
       = ac_total_licenses (get_license_compliance_report s today)
   \<and> cr_compliance_rate (generate_license_compliance_report s today) =
       (if cr_total_licenses (generate_license_compliance_report s today) = 0 then 0
        else py_round2 (float_mul (float_div
               (rs_valid (cr_summary (generate_license_compliance_report s today)))
               (cr_total_licenses (generate_license_compliance_report s today))) 100))
   \<and> ac_compliance_rate (get_license_compliance_report s today) =
       (if ac_total_licenses (get_license_compliance_report s today) = 0 then 0
        else py_round2 (float_mul (float_div
               (ac_valid_licenses (get_license_compliance_report s today))
               (ac_total_licenses (get_license_compliance_report s today))) 100))
   \<and> ac_compliance_rate (get_license_compliance_report s today)
       = cr_compliance_rate (generate_license_compliance_report s today)"
    unfolding generate_report_lists generate_report_summary generate_report_rate
      alert_report_fields alert_report_rate bucket_lengths_int e
    using u by simp
  from a b show ?thesis by blast
qed

text \<open>
  On three licenses, one in each of three buckets, and on 160 licenses of which 23 are
  valid, where the rate is the double 14.37.
\<close>

theorem compliance_report_buckets_witness:
  "map ld_license_key (cr_valid_licenses (generate_license_compliance_report store_buckets 1000))
     = [''LV'']
   \<and> map ld_license_key (cr_expiring_30_days (generate_license_compliance_report store_buckets 1000))
     = [''L10'']
   \<and> map ld_license_key (cr_expiring_60_days (generate_license_compliance_report store_buckets 1000))
     = []
   \<and> map ld_license_key (cr_expired_licenses (generate_license_compliance_report store_buckets 1000))
     = [''LX'']
   \<and> cr_total_licenses (generate_license_compliance_report store_buckets 1000) = 3
   \<and> rs_valid (cr_summary (generate_license_compliance_report store_buckets 1000))
       + rs_expiring_30_days (cr_summary (generate_license_compliance_report store_buckets 1000))
       + rs_expiring_60_days (cr_summary (generate_license_compliance_report store_buckets 1000))
       + rs_expired (cr_summary (generate_license_compliance_report store_buckets 1000)) = 3
   \<and> rs_valid (cr_summary (generate_license_compliance_report store_23_valid 1000)) = 23
   \<and> rs_expired (cr_summary (generate_license_compliance_report store_23_valid 1000)) = 137
   \<and> cr_total_licenses (generate_license_compliance_report store_23_valid 1000) = 160
   \<and> cr_compliance_rate (generate_license_compliance_report store_23_valid 1000)
       = 8089590830664253 / 562949953421312
   \<and> ac_compliance_rate (get_license_compliance_report store_23_valid 1000)
       = 8089590830664253 / 562949953421312"
proof -
  have f: "map ld_license_key (map (license_data_of store_buckets 1000)
             (filter (in_bucket 1000 Valid) (licenses store_buckets))) = [''LV'']"
       "map ld_license_key (map (license_data_of store_buckets 1000)
             (filter (in_bucket 1000 Expiring30) (licenses store_buckets))) = [''L10'']"
       "map ld_license_key (map (license_data_of store_buckets 1000)
             (filter (in_bucket 1000 Expiring60) (licenses store_buckets))) = []"
       "map ld_license_key (map (license_data_of store_buckets 1000)
             (filter (in_bucket 1000 Expired) (licenses store_buckets))) = [''LX'']"
       "int (length (licenses store_buckets)) = 3"
    by code_simp+
  have g: "int (length (filter (in_bucket 1000 Valid) (licenses store_23_valid))) = 23"
          "int (length (filter (in_bucket 1000 Expired) (licenses store_23_valid))) = 137"
          "int (length (licenses store_23_valid)) = 160"
    by code_simp+
  have p: "py_round2 (float_mul (float_div 23 160) 100) = 8089590830664253 / 562949953421312"
    by code_simp
  from compliance_report_buckets [of store_buckets 1000] f
  have 1: "map ld_license_key (cr_valid_licenses (generate_license_compliance_report store_buckets 1000))
     = [''LV'']
   \<and> map ld_license_key (cr_expiring_30_days (generate_license_compliance_report store_buckets 1000))
     = [''L10'']
   \<and> map ld_license_key (cr_expiring_60_days (generate_license_compliance_report store_buckets 1000))
     = []
   \<and> map ld_license_key (cr_expired_licenses (generate_license_compliance_report store_buckets 1000))
     = [''LX'']
   \<and> cr_total_licenses (generate_license_compliance_report store_buckets 1000) = 3
   \<and> rs_valid (cr_summary (generate_license_compliance_report store_buckets 1000))
       + rs_expiring_30_days (cr_summary (generate_license_compliance_report store_buckets 1000))
       + rs_expiring_60_days (cr_summary (generate_license_compliance_report store_buckets 1000))
       + rs_expired (cr_summary (generate_license_compliance_report store_buckets 1000)) = 3"
    by simp
  note t = compliance_report_buckets [of store_23_valid 1000]
  from t g have v: "rs_valid (cr_summary (generate_license_compliance_report store_23_valid 1000)) = 23"
    and x: "rs_expired (cr_summary (generate_license_compliance_report store_23_valid 1000)) = 137"
    and n: "cr_total_licenses (generate_license_compliance_report store_23_valid 1000) = 160"
    and av: "ac_valid_licenses (get_license_compliance_report store_23_valid 1000) = 23"
    and an: "ac_total_licenses (get_license_compliance_report store_23_valid 1000) = 160"
    by simp_all
  from t have "cr_compliance_rate (generate_license_compliance_report store_23_valid 1000) =
       (if cr_total_licenses (generate_license_compliance_report store_23_valid 1000) = 0 then 0
        else py_round2 (float_mul (float_div
               (rs_valid (cr_summary (generate_license_compliance_report store_23_valid 1000)))
               (cr_total_licenses (generate_license_compliance_report store_23_valid 1000))) 100))"
    by blast
  then have r: "cr_compliance_rate (generate_license_compliance_report store_23_valid 1000)
       = 8089590830664253 / 562949953421312"
    unfolding v n using p by simp
  from t have "ac_compliance_rate (get_license_compliance_report store_23_valid 1000) =
       (if ac_total_licenses (get_license_compliance_report store_23_valid 1000) = 0 then 0
        else py_round2 (float_mul (float_div
               (ac_valid_licenses (get_license_compliance_report store_23_valid 1000))
               (ac_total_licenses (get_license_compliance_report store_23_valid 1000))) 100))"
    by blast
  then have ar: "ac_compliance_rate (get_license_compliance_report store_23_valid 1000)
       = 8089590830664253 / 562949953421312"
    unfolding av an using p by simp
  from 1 v x n r ar show ?thesis by blast
qed

text \<open>
  Claim C7 as stated gives the rate as \<open>valid_count / total_count * 100\<close>. With one valid
  license out of three both reports return the double 33.33, which is neither the
  number 100/3 nor the double that \<^verbatim>\<open>1 / 3 * 100\<close> evaluates to.
\<close>

theorem compliance_rate_counterexample:
  "rs_valid (cr_summary (generate_license_compliance_report store_buckets 1000)) = 1
   \<and> cr_total_licenses (generate_license_compliance_report store_buckets 1000) = 3
   \<and> cr_compliance_rate (generate_license_compliance_report store_buckets 1000)
       = 2345390243441541 / 70368744177664
   \<and> ac_compliance_rate (get_license_compliance_report store_buckets 1000)
       = 2345390243441541 / 70368744177664
   \<and> (2345390243441541 / 70368744177664 :: rat) = to_double (3333 / 100)
   \<and> (2345390243441541 / 70368744177664 :: rat) \<noteq> 1 / 3 * 100
   \<and> (2345390243441541 / 70368744177664 :: rat) \<noteq> float_mul (float_div 1 3) 100"
  by code_simp

lemma compliance_reports_agree:
  "ac_total_licenses (get_license_compliance_report s today)
     = cr_total_licenses (generate_license_compliance_report s today)"
  "ac_valid_licenses (get_license_compliance_report s today)
     = rs_valid (cr_summary (generate_license_compliance_report s today))"
  "ac_expiring_within_30_days (get_license_compliance_report s today)
     = rs_expiring_30_days (cr_summary (generate_license_compliance_report s today))"
  "ac_expiring_within_60_days (get_license_compliance_report s today)
     = rs_expiring_60_days (cr_summary (generate_license_compliance_report s today))"
  "ac_expired_licenses (get_license_compliance_report s today)
     = rs_expired (cr_summary (generate_license_compliance_report s today))"
  "ac_compliance_rate (get_license_compliance_report s today)
     = cr_compliance_rate (generate_license_compliance_report s today)"
  by (simp_all add: generate_report_lists generate_report_summary generate_report_rate
        alert_report_fields alert_report_rate)

text \<open>
  Claim C9. The two reports agree on the total, on the four bucket counts and on the
  rate (\<open>compliance_reports_agree\<close>). They differ in the number of overused licenses on
  a store whose only license has \<open>max_usage = 0\<close> and no assignment:
  \<^verbatim>\<open>get_license_compliance_report\<close> tests \<^verbatim>\<open>usage >= max_usage * 0.9\<close>, which holds, and
  counts the license as overused; \<^verbatim>\<open>generate_license_compliance_report\<close> takes the
  usage of a license without capacity to be 0 percent, as every other computation of
  it in the services does, and counts none.
\<close>

theorem compliance_reports_overused_differ:
  "ac_overused_licenses (get_license_compliance_report store_zero 1000) = 1
   \<and> rs_overused (cr_summary (generate_license_compliance_report store_zero 1000)) = 0"
  by code_simp

section \<open>License creation\<close>




section \<open>Devices at risk\<close>

lemma risk_loop_returns:
  "\<forall>a\<in>set as. \<exists>l\<in>set ls. license_key l = a_license_key a \<Longrightarrow>
   \<exists>r. risk_loop ls today td as acc = Inr r"
proof (induction as arbitrary: acc)
  case Nil
  show ?case by (rule exI [of _ acc]) simp
next
  case (Cons a as)
  obtain ec esc el xl where acc: "acc = (ec, esc, el, xl)" by (rule prod_cases4)
  from Cons.prems have "\<exists>l\<in>set ls. license_key l = a_license_key a" by simp
  then obtain L where L: "find (\<lambda>l. license_key l = a_license_key a) ls = Some L"
    using find_is_Some [of ls "\<lambda>l. license_key l = a_license_key a"] by blast
  from Cons.prems have r: "\<forall>a\<in>set as. \<exists>l\<in>set ls. license_key l = a_license_key a" by simp
  show ?case unfolding acc using L Cons.IH [OF r] by simp
qed

lemma at_risk_loop_returns:
  "\<forall>a\<in>set (assignments s). \<exists>l\<in>set (licenses s). license_key l = a_license_key a \<Longrightarrow>
   \<exists>rs. at_risk_loop s today td ds acc = Inr rs"
proof (induction ds arbitrary: acc)
  case Nil
  then show ?case by simp
next
  case (Cons d ds)
  let ?as = "filter (\<lambda>a. a_device_id a = device_id d) (assignments s)"
  from Cons.prems have "\<forall>a\<in>set ?as. \<exists>l\<in>set (licenses s). license_key l = a_license_key a"
    by simp
  then obtain r where r: "risk_loop (licenses s) today td ?as (0, 0, [], []) = Inr r"
    using risk_loop_returns by blast
  obtain ec esc el xl where "r = (ec, esc, el, xl)" by (rule prod_cases4)
  with r show ?case using Cons.IH [OF Cons.prems] by (simp add: Let_def)
qed

lemma at_risk_loop_devices:
  "at_risk_loop s today td ds acc = Inr rs \<Longrightarrow> r \<in> set rs \<Longrightarrow>
   r \<in> set acc \<or> (\<exists>d\<in>set ds. dk_device_id r = device_id d)"
proof (induction ds arbitrary: acc)
  case Nil
  then show ?case by simp
next
  case (Cons d ds)
  let ?as = "filter (\<lambda>a. a_device_id a = device_id d) (assignments s)"
  show ?case
  proof (cases "risk_loop (licenses s) today td ?as (0, 0, [], [])")
    case (Inl e)
    with Cons.prems(1) show ?thesis by (simp add: Let_def)
  next
    case (Inr t)
    obtain ec esc el xl where t: "t = (ec, esc, el, xl)" by (rule prod_cases4)
    show ?thesis
    proof (cases "ec > 0 \<or> esc > 0")
      case True
      let ?e = "\<lparr>dk_device_id = device_id d,
                    dk_device_type = dev_type d,
                    dk_location = location d,
                    dk_ip_address = ip_address d,
                    dk_expired_licenses = ec,
                    dk_expiring_soon = esc,
                    dk_expired_license_names = el,
                    dk_expiring_license_details = xl,
                    dk_severity = (if ec > 0 then ''CRITICAL'' else ''WARNING''),
                    dk_message = get_device_risk_message ec esc\<rparr>"
      from Cons.prems(1) Inr t True
      have "at_risk_loop s today td ds (acc @ [?e]) = Inr rs"
        by (simp add: Let_def)
      from Cons.IH [OF this Cons.prems(2)]
      have "r \<in> set (acc @ [?e]) \<or> (\<exists>d\<in>set ds. dk_device_id r = device_id d)" .
      then show ?thesis by auto
    next
      case False
      from Cons.prems(1) Inr t False
      have "at_risk_loop s today td ds acc = Inr rs"
        by (simp add: Let_def)
      from Cons.IH [OF this Cons.prems(2)] show ?thesis by auto
    qed
  qed
qed

lemma get_devices_at_risk_active:
  assumes "get_devices_at_risk s today n = Inr rs" and "r \<in> set rs"
  shows "\<exists>d\<in>set (devices s). status d = ACTIVE \<and> device_id d = dk_device_id r"
proof -
  let ?ds = "filter (\<lambda>d. status d = ACTIVE) (devices s)"
  from assms(1) obtain ar where ar: "at_risk_loop s today (today + n) ?ds [] = Inr ar"
    and rs: "rs = sort_key (\<lambda>x. (dk_severity x = ''WARNING'', - dk_expired_licenses x)) ar"
    by (auto simp: get_devices_at_risk_def Let_def split: sum.splits)
  from rs assms(2) have "r \<in> set ar" by simp
  from at_risk_loop_devices [OF ar this]
  have "\<exists>d\<in>set ?ds. dk_device_id r = device_id d" by simp
  then show ?thesis by auto
qed

text \<open>
  Claim C10. Every entry of the list \<^verbatim>\<open>get_devices_at_risk\<close> returns carries the id of a
  device of the store whose status is ACTIVE. Device ids being distinct (the id is the
  primary key), the id of a device in maintenance, obsolete or decommissioned is the id
  of no entry, whatever licenses are assigned to it. And the function does return a
  list when every assignment names an existing license.
\<close>

theorem devices_at_risk_only_active:
  "(\<forall>rs. get_devices_at_risk s today n = Inr rs \<longrightarrow>
       (\<forall>r\<in>set rs. \<exists>d\<in>set (devices s). status d = ACTIVE \<and> device_id d = dk_device_id r))
   \<and> (\<forall>rs. get_devices_at_risk s today n = Inr rs
            \<and> distinct (map device_id (devices s)) \<longrightarrow>
       (\<forall>d\<in>set (devices s). status d \<noteq> ACTIVE \<longrightarrow> device_id d \<notin> dk_device_id ` set rs))
   \<and> ((\<forall>a\<in>set (assignments s). \<exists>l\<in>set (licenses s). license_key l = a_license_key a) \<longrightarrow>
       (\<exists>rs. get_devices_at_risk s today n = Inr rs))"
proof (intro conjI allI impI ballI)
  fix rs r
  assume "get_devices_at_risk s today n = Inr rs" "r \<in> set rs"
  then show "\<exists>d\<in>set (devices s). status d = ACTIVE \<and> device_id d = dk_device_id r"
    by (rule get_devices_at_risk_active)
next
  fix rs d
  assume h: "get_devices_at_risk s today n = Inr rs \<and> distinct (map device_id (devices s))"
    and d: "d \<in> set (devices s)" and na: "status d \<noteq> ACTIVE"
  show "device_id d \<notin> dk_device_id ` set rs"
  proof
    assume "device_id d \<in> dk_device_id ` set rs"
    then obtain r where r: "r \<in> set rs" and e: "dk_device_id r = device_id d" by auto
    from h r obtain d' where d': "d' \<in> set (devices s)" "status d' = ACTIVE"
      "device_id d' = dk_device_id r"
      using get_devices_at_risk_active by blast
    from h have "inj_on device_id (set (devices s))" by (simp add: distinct_map)
    with d d'(1) d'(3) e have "d' = d" by (simp add: inj_on_def)
    with d'(2) na show False by simp
  qed
next
  assume f: "\<forall>a\<in>set (assignments s). \<exists>l\<in>set (licenses s). license_key l = a_license_key a"
  from at_risk_loop_returns [OF f]
  obtain ar where "at_risk_loop s today (today + n)
      (filter (\<lambda>d. status d = ACTIVE) (devices s)) [] = Inr ar" by blast
  then show "\<exists>rs. get_devices_at_risk s today n = Inr rs"
    by (simp add: get_devices_at_risk_def Let_def)
qed

theorem devices_at_risk_only_active_witness:
  "distinct (map device_id (devices store_risk))
   \<and> example_device ''DEV-M'' MAINTENANCE \<in> set (devices store_risk)
   \<and> example_assignment ''u2'' ''LX'' ''DEV-M'' \<in> set (assignments store_risk)
   \<and> valid_to (example_license ''LX'' 999 5) < 1000
   \<and> (\<exists>rs. get_devices_at_risk store_risk 1000 15 = Inr rs
        \<and> map dk_device_id rs = [''DEV-A'']
        \<and> ''DEV-M'' \<notin> dk_device_id ` set rs)"
proof -
  have fk: "\<forall>a\<in>set (assignments store_risk).
              \<exists>l\<in>set (licenses store_risk). license_key l = a_license_key a"
    by (simp add: store_risk_def example_defs)
  have di: "distinct (map device_id (devices store_risk))"
    by (simp add: store_risk_def example_defs)
  have m: "example_device ''DEV-M'' MAINTENANCE \<in> set (devices store_risk)"
    by (simp add: store_risk_def example_store_def)
  have am: "example_assignment ''u2'' ''LX'' ''DEV-M'' \<in> set (assignments store_risk)"
    by (simp add: store_risk_def example_store_def)
  have ex: "valid_to (example_license ''LX'' 999 5) < 1000"
    by (simp add: example_license_def)
  have ev: "map_sum id (map dk_device_id) (get_devices_at_risk store_risk 1000 15)
              = Inr [''DEV-A'']"
    by code_simp
  note t = devices_at_risk_only_active [of store_risk 1000 15]
  from t fk obtain rs where rs: "get_devices_at_risk store_risk 1000 15 = Inr rs" by blast
  from t rs have a: "\<forall>r\<in>set rs. \<exists>d\<in>set (devices store_risk).
               status d = ACTIVE \<and> device_id d = dk_device_id r" by blast
  from t rs di have "\<forall>d\<in>set (devices store_risk).
      status d \<noteq> ACTIVE \<longrightarrow> device_id d \<notin> dk_device_id ` set rs" by blast
  with m have "status (example_device ''DEV-M'' MAINTENANCE) \<noteq> ACTIVE \<longrightarrow>
      device_id (example_device ''DEV-M'' MAINTENANCE) \<notin> dk_device_id ` set rs" by blast
  then have b: "''DEV-M'' \<notin> dk_device_id ` set rs" by (simp add: example_device_def)
  from ev rs have c: "map dk_device_id rs = [''DEV-A'']" by simp
  have e: "\<exists>rs. get_devices_at_risk store_risk 1000 15 = Inr rs
        \<and> map dk_device_id rs = [''DEV-A'']
        \<and> ''DEV-M'' \<notin> dk_device_id ` set rs"
    by (rule exI [of _ rs]) (rule conjI [OF rs conjI [OF c b]])
  show ?thesis
    by (rule conjI [OF di conjI [OF m conjI [OF am conjI [OF ex e]]]])
qed

end
